theory Spec2Isabelle
  imports Main "HOL-Library.AList"
begin

section \<open>Custom operator registration (torch/\_custom\_op/impl.py)\<close>

text \<open>
  A shallow embedding of the registration code of \<^verbatim>\<open>torch/_custom_op/impl.py\<close>.
  Python exceptions are values of \<open>error\<close> (\<open>IncompleteComposition\<close> and
  \<open>DuplicateDeclaration\<close> are the error kinds of these names of the specification, raised
  by code that is not among the sources); a method that mutates its object returns the
  outcome together with the object after the call, so that a raise after a partial
  mutation keeps the mutation, as in Python.  Strings are byte strings; the code only
  searches them for the ASCII characters \<open>.\<close> and \<open>:\<close>, which never occur inside a
  multi-byte UTF-8 sequence.
\<close>

subsection \<open>Exceptions\<close>

datatype error =
    RuntimeError string
  | ValueError string
  | NotImplementedError string
  | AssertionError
  | KeyError string
  | AttributeError string
  | ReferenceError
  | IncompleteComposition
  | DuplicateDeclaration

subsection \<open>Decimal rendering of a natural number (Python's \<open>str(int)\<close>)\<close>

definition digit_char :: "nat \<Rightarrow> char" where
  "digit_char d =
     (if d = 0 then CHR ''0'' else if d = 1 then CHR ''1'' else if d = 2 then CHR ''2''
      else if d = 3 then CHR ''3'' else if d = 4 then CHR ''4'' else if d = 5 then CHR ''5''
      else if d = 6 then CHR ''6'' else if d = 7 then CHR ''7'' else if d = 8 then CHR ''8''
      else CHR ''9'')"

fun str_nat :: "nat \<Rightarrow> string" where
  "str_nat n = (if n < 10 then [digit_char n] else str_nat (n div 10) @ [digit_char (n mod 10)])"

declare str_nat.simps [simp del]

subsection \<open>Registered implementations\<close>

text \<open>\<^verbatim>\<open>FuncAndLocation\<close>: the callable and the source location it was registered from.\<close>

record 'f FuncAndLocation =
  func :: 'f
  location :: string

text \<open>
  \<^verbatim>\<open>inspect.getframeinfo(sys._getframe(stacklevel))\<close> reads the interpreter's call
  stack.  The model takes the frame it returns as an argument, in place of \<open>stacklevel\<close>.
\<close>

record frameinfo =
  filename :: string
  lineno :: nat

subsection \<open>Schemas (the fields of torchgen's \<open>FunctionSchema\<close> that the code reads)\<close>

datatype SchemaKind = functional | inplace | mutable | out | scratch

datatype BaseTy =
    BaseTy_Generator | BaseTy_ScalarType | BaseTy_Tensor | BaseTy_int | BaseTy_Dimname
  | BaseTy_DimVector | BaseTy_float | BaseTy_str | BaseTy_bool | BaseTy_Layout
  | BaseTy_Device | BaseTy_DeviceIndex | BaseTy_Scalar | BaseTy_MemoryFormat
  | BaseTy_QScheme | BaseTy_Storage | BaseTy_Stream | BaseTy_SymInt | BaseTy_SymBool
  | BaseTy_ConstQuantizerPtr

datatype Type =
    BaseType BaseTy
  | OptionalType Type
  | CustomClassType string
  | ListType Type "nat option"

record Annotation =
  is_write :: bool

record Return =
  ret_type :: Type
  ret_annotation :: "Annotation option"

record Argument =
  arg_name :: string
  arg_default :: "string option"

record OperatorName =
  base_name :: string
  overload_name :: "string option"

text \<open>
  \<open>schema_kind\<close> is the value of \<^verbatim>\<open>schema.kind()\<close>, \<open>schema_str\<close> that of
  \<^verbatim>\<open>str(schema)\<close>, \<open>base_name\<close> that of \<^verbatim>\<open>str(operator_name.name)\<close>.
\<close>

record FunctionSchema =
  schema_name :: OperatorName
  schema_kind :: SchemaKind
  returns :: "Return list"
  self_arg :: "Argument option"
  flat_positional :: "Argument list"
  flat_kwarg_only :: "Argument list"
  schema_str :: string

subsection \<open>The \<open>CustomOp\<close> object\<close>

text \<open>A \<^verbatim>\<open>torch.library.Library\<close> object, as far as the code names it.\<close>

record Library =
  lib_ns :: string
  lib_kind :: string

text \<open>
  The argument \<^verbatim>\<open>output_differentiability\<close> of \<^verbatim>\<open>impl_backward\<close>: \<^verbatim>\<open>None\<close>, a
  list (whose items are \<^verbatim>\<open>bool\<close>s or something else), or a value that is not a list.
\<close>

datatype od_item = Item_bool bool | Item_not_bool

datatype od_arg = OD_None | OD_list "od_item list" | OD_not_list

text \<open>
  The attributes of a \<^verbatim>\<open>CustomOp\<close>.  \<open>lib = None\<close> stands for the attribute
  \<^verbatim>\<open>_lib\<close> deleted by \<^verbatim>\<open>del self._lib\<close>; \<open>output_differentiability = None\<close> for
  the attribute \<^verbatim>\<open>_output_differentiability\<close> not set yet (the constructor does not
  set it).  \<open>impls\<close> is the dictionary \<^verbatim>\<open>_impls\<close>, declared as
  \<^verbatim>\<open>Dict[str, Optional[FuncAndLocation]]\<close>.
\<close>

record ('f, 'o) CustomOp =
  schema :: FunctionSchema
  cpp_ns :: string
  lib :: "Library option"
  ophandle :: 'o
  opname :: string
  qualname :: string
  dunder_name :: "string option"
  dunder_module :: "string option"
  dunder_doc :: "string option"
  impls :: "string \<rightharpoonup> 'f FuncAndLocation option"
  registered_autograd_kernel_indirection :: bool
  output_differentiability :: "od_arg option"

subsection \<open>Recording implementations\<close>

definition has_impl :: "('f, 'o) CustomOp \<Rightarrow> string \<Rightarrow> bool" where
  "has_impl self kind = (impls self kind \<noteq> None)"

definition get_impl :: "('f, 'o) CustomOp \<Rightarrow> string \<Rightarrow> error + 'f FuncAndLocation option" where
  "get_impl self kind =
     (case impls self kind of None \<Rightarrow> Inl (KeyError kind) | Some v \<Rightarrow> Inr v)"

definition register_impl_message :: "string \<Rightarrow> string \<Rightarrow> string \<Rightarrow> string" where
  "register_impl_message kind qn loc =
     ''Attempting to register a '' @ kind @ '' impl for operator '' @ qn @ '' '' @
     ''that already has a '' @ kind @ '' impl registered from Python at '' @
     loc @ ''. This is not supported.''"

definition frame_location :: "frameinfo \<Rightarrow> string" where
  "frame_location frame = filename frame @ '':'' @ str_nat (lineno frame)"

text \<open>\<^verbatim>\<open>CustomOp._register_impl(kind, func, stacklevel)\<close>.\<close>

definition register_impl ::
  "('f, 'o) CustomOp \<Rightarrow> string \<Rightarrow> 'f \<Rightarrow> frameinfo \<Rightarrow> (error + unit) \<times> ('f, 'o) CustomOp" where
  "register_impl self kind f frame =
     (if has_impl self kind then
        (case get_impl self kind of
           Inl e \<Rightarrow> (Inl e, self)
         | Inr None \<Rightarrow> (Inl AssertionError, self)
         | Inr (Some func_and_location) \<Rightarrow>
             (Inl (RuntimeError
                (register_impl_message kind (qualname self) (location func_and_location))), self))
      else
        (Inr (), self\<lparr>impls := (impls self)(kind \<mapsto>
                 Some \<lparr>func = f, location = frame_location frame\<rparr>)\<rparr>))"

text \<open>
  A caller that performs registrations one after the other on the same object, going on
  after a registration that raised.
\<close>

fun register_impls ::
  "('f, 'o) CustomOp \<Rightarrow> (string \<times> 'f \<times> frameinfo) list \<Rightarrow> ('f, 'o) CustomOp" where
  "register_impls self [] = self"
| "register_impls self ((kind, f, frame) # calls) =
     register_impls (snd (register_impl self kind f frame)) calls"

subsection \<open>Schema inference\<close>

text \<open>
  Python annotation objects, up to Python's equality on them.  \<open>torch_types_Number\<close> is
  \<^verbatim>\<open>torch.types.Number\<close>; \<open>Other_type\<close> is any other object found in an annotation
  (a class, a string, \<^verbatim>\<open>...\<close>).  The \<^verbatim>\<open>typing\<close> module flattens a nested
  \<^verbatim>\<open>Optional\<close>, so such a value is never handed to the code.
\<close>

datatype py_type =
    torch_Tensor | py_int | py_float | py_bool | py_str | torch_types_Number
  | torch_dtype | torch_device
  | typing_Optional py_type
  | typing_Sequence py_type
  | typing_List py_type
  | typing_Tuple "py_type list"
  | Other_type string

text \<open>
  An annotation slot of \<^verbatim>\<open>inspect.signature\<close>: \<open>Annotation_empty\<close> is
  \<^verbatim>\<open>inspect.Parameter.empty\<close> (no annotation written), \<open>Annotation_None\<close> the
  annotation \<^verbatim>\<open>None\<close>.
\<close>

datatype annotation = Annotation_empty | Annotation_None | Annotation_type py_type

datatype param_kind =
  POSITIONAL_ONLY | POSITIONAL_OR_KEYWORD | VAR_POSITIONAL | KEYWORD_ONLY | VAR_KEYWORD

record Parameter =
  param_name :: string
  param_kind :: param_kind
  param_annotation :: annotation
  has_default :: bool

text \<open>\<open>sig_str\<close> is \<^verbatim>\<open>str(sig)\<close>, used in error messages only.\<close>

record Signature =
  parameters :: "Parameter list"
  return_annotation :: annotation
  sig_str :: string

text \<open>
  What Python's \<^verbatim>\<open>repr\<close> prints for the objects that the error messages of
  \<^verbatim>\<open>infer_schema\<close> embed; it depends on the Python version and is a parameter.
\<close>

record py_reprs =
  repr_annotation :: "annotation \<Rightarrow> string"
  repr_param_types_keys :: string
  repr_return_types :: string
  repr_od :: "od_arg \<Rightarrow> string"

definition supported_param :: "Parameter \<Rightarrow> bool" where
  "supported_param param = (param_kind param \<in> {POSITIONAL_OR_KEYWORD, KEYWORD_ONLY})"

definition derived_seq_types :: "py_type \<Rightarrow> py_type list" where
  "derived_seq_types typ = [typing_Sequence typ, typing_List typ]"

definition derived_types ::
  "py_type \<Rightarrow> string \<Rightarrow> bool \<Rightarrow> bool \<Rightarrow> bool \<Rightarrow> (py_type \<times> string) list" where
  "derived_types base_type cpp_type list_base optional_base_list optional_list_base =
     [(base_type, cpp_type), (typing_Optional base_type, cpp_type @ ''?'')]
     @ (if list_base
        then map (\<lambda>seq_typ. (seq_typ, cpp_type @ ''[]'')) (derived_seq_types base_type)
        else [])
     @ (if optional_base_list
        then map (\<lambda>seq_typ. (seq_typ, cpp_type @ ''?[]''))
               (derived_seq_types (typing_Optional base_type))
        else [])
     @ (if optional_list_base
        then map (\<lambda>seq_typ. (typing_Optional seq_typ, cpp_type @ ''[]?''))
               (derived_seq_types base_type)
        else [])"

text \<open>\<^verbatim>\<open>dict(result)\<close>: of two pairs with the same key the later one wins.\<close>

definition py_dict :: "('k \<times> 'v) list \<Rightarrow> 'k \<rightharpoonup> 'v" where
  "py_dict kvs = map_of (rev kvs)"

definition get_supported_param_types :: "py_type \<rightharpoonup> string" where
  "get_supported_param_types =
     py_dict (concat (map (\<lambda>(t, c, l, ol, lo). derived_types t c l ol lo)
       [(torch_Tensor, ''Tensor'', True, True, False),
        (py_int, ''SymInt'', True, False, True),
        (py_float, ''float'', True, False, True),
        (py_bool, ''bool'', True, False, True),
        (py_str, ''str'', False, False, False),
        (torch_types_Number, ''Scalar'', True, False, False),
        (torch_dtype, ''ScalarType'', False, False, False),
        (torch_device, ''Device'', False, False, False)]))"

definition SUPPORTED_PARAM_TYPES :: "py_type \<rightharpoonup> string" where
  "SUPPORTED_PARAM_TYPES = get_supported_param_types"

definition SUPPORTED_RETURN_TYPES :: "py_type \<rightharpoonup> string" where
  "SUPPORTED_RETURN_TYPES =
     py_dict [(torch_Tensor, ''Tensor''),
              (typing_List torch_Tensor, ''Tensor[]''),
              (py_int, ''SymInt''),
              (py_float, ''float''),
              (py_bool, ''bool''),
              (torch_types_Number, ''Scalar'')]"

text \<open>\<^verbatim>\<open>sep.join(xs)\<close>.\<close>

fun join :: "string \<Rightarrow> string list \<Rightarrow> string" where
  "join sep [] = []"
| "join sep [x] = x"
| "join sep (x # y # ys) = x @ sep @ join sep (y # ys)"

text \<open>The nested \<^verbatim>\<open>error_fn(what)\<close> of \<^verbatim>\<open>infer_schema\<close>.\<close>

definition error_fn :: "Signature \<Rightarrow> string \<Rightarrow> error" where
  "error_fn sig what =
     ValueError (''infer_schema(func): '' @ what @ '' '' @
                 ''Got func with signature '' @ sig_str sig @ '')'')"

definition unsupported_return :: "py_reprs \<Rightarrow> annotation \<Rightarrow> string" where
  "unsupported_return R ann =
     ''Return has unsupported type '' @ repr_annotation R ann @ ''. '' @
     ''The valid types are: '' @ repr_return_types R @ ''.''"

text \<open>
  \<^verbatim>\<open>parse_return(annotation, error_fn)\<close>.  \<^verbatim>\<open>typing.get_origin\<close> is \<^verbatim>\<open>tuple\<close> exactly
  for a \<open>typing_Tuple\<close>, whose arguments \<^verbatim>\<open>typing.get_args\<close> returns.
\<close>

fun supported_returns :: "py_type list \<Rightarrow> string list option" where
  "supported_returns [] = Some []"
| "supported_returns (arg # args) =
     (case SUPPORTED_RETURN_TYPES arg of
        None \<Rightarrow> None
      | Some s \<Rightarrow> map_option ((#) s) (supported_returns args))"

definition parse_return :: "py_reprs \<Rightarrow> Signature \<Rightarrow> annotation \<Rightarrow> error + string" where
  "parse_return R sig ann =
     (case ann of
        Annotation_None \<Rightarrow> Inr ''()''
      | Annotation_type (typing_Tuple args) \<Rightarrow>
          (case supported_returns args of
             None \<Rightarrow> Inl (error_fn sig (unsupported_return R ann))
           | Some rets \<Rightarrow> Inr (''('' @ join '', '' rets @ '')''))
      | Annotation_type t \<Rightarrow>
          (case SUPPORTED_RETURN_TYPES t of
             None \<Rightarrow> Inl (error_fn sig (unsupported_return R ann))
           | Some s \<Rightarrow> Inr s)
      | Annotation_empty \<Rightarrow> Inl (error_fn sig (unsupported_return R ann)))"

text \<open>
  One round of the loop of \<^verbatim>\<open>infer_schema\<close> over
  \<^verbatim>\<open>enumerate(sig.parameters.items())\<close>: the text appended to \<^verbatim>\<open>params\<close>, or the
  error raised.
\<close>

definition infer_param ::
  "py_reprs \<Rightarrow> Signature \<Rightarrow> string list \<Rightarrow> nat \<Rightarrow> Parameter \<Rightarrow> error + string" where
  "infer_param R sig mutated_args idx param =
     (let name = param_name param in
      if \<not> supported_param param then
        Inl (error_fn sig ''We do not support positional-only args, varargs, or varkwargs.'')
      else if param_annotation param = Annotation_empty then
        Inl (error_fn sig (''Parameter '' @ name @ '' must have a type annotation.''))
      else
        (case (case param_annotation param of
                 Annotation_type t \<Rightarrow> SUPPORTED_PARAM_TYPES t
               | _ \<Rightarrow> None) of
           None \<Rightarrow>
             Inl (error_fn sig (''Parameter '' @ name @ '' has unsupported type '' @
                    repr_annotation R (param_annotation param) @ ''. '' @
                    ''The valid types are: '' @ repr_param_types_keys R @ ''.''))
         | Some schema_type \<Rightarrow>
             if has_default param then
               Inl (error_fn sig (''Parameter '' @ name @
                      '' has a default value; this is not supported. '' @
                      ''If you want to use default values then create a function with '' @
                      ''default values that invokes the custom op.''))
             else if name \<in> set mutated_args then
               (if take (length ''Tensor'') schema_type \<noteq> ''Tensor'' then
                  Inl (error_fn sig (''Parameter '' @ name @
                    '' is in mutable_args but only Tensors or collections of Tensors can be mutated''))
                else
                  Inr ((''Tensor(a'' @ str_nat idx @ ''!)'' @
                        drop (length ''Tensor'') schema_type) @ '' '' @ name))
             else Inr (schema_type @ '' '' @ name)))"

fun infer_params ::
  "py_reprs \<Rightarrow> Signature \<Rightarrow> string list \<Rightarrow> nat \<Rightarrow> Parameter list \<Rightarrow> error + string list" where
  "infer_params R sig mutated_args idx [] = Inr []"
| "infer_params R sig mutated_args idx (param # rest) =
     (case infer_param R sig mutated_args idx param of
        Inl e \<Rightarrow> Inl e
      | Inr p \<Rightarrow>
          (case infer_params R sig mutated_args (Suc idx) rest of
             Inl e \<Rightarrow> Inl e
           | Inr ps \<Rightarrow> Inr (p # ps)))"

text \<open>\<^verbatim>\<open>infer_schema(prototype_function, mutated_args)\<close>, on the function's signature.\<close>

definition infer_schema :: "py_reprs \<Rightarrow> Signature \<Rightarrow> string list \<Rightarrow> error + string" where
  "infer_schema R sig mutated_args =
     (case infer_params R sig mutated_args 0 (parameters sig) of
        Inl e \<Rightarrow> Inl e
      | Inr params \<Rightarrow>
          (case parse_return R sig (return_annotation sig) of
             Inl e \<Rightarrow> Inl e
           | Inr ret \<Rightarrow> Inr (''('' @ join '', '' params @ '') -> '' @ ret)))"


subsection \<open>Names and device types\<close>

definition SUPPORTED_DEVICE_TYPE_TO_KEY :: "string \<rightharpoonup> string" where
  "SUPPORTED_DEVICE_TYPE_TO_KEY = py_dict [(''cpu'', ''CPU''), (''cuda'', ''CUDA'')]"

definition RESERVED_NS :: "string set" where
  "RESERVED_NS = {''prim'', ''prims'', ''aten'', ''at'', ''torch'', ''pytorch''}"

text \<open>
  \<^verbatim>\<open>qualname.split("::", 1)\<close> has two elements exactly when \<^verbatim>\<open>::\<close> occurs in the name,
  and then cuts it at the first occurrence; \<open>None\<close> stands for the one-element result.
\<close>

fun split_double_colon :: "string \<Rightarrow> (string \<times> string) option" where
  "split_double_colon [] = None"
| "split_double_colon [c] = None"
| "split_double_colon (c # d # cs) =
     (if c = CHR '':'' \<and> d = CHR '':'' then Some ([], cs)
      else map_option (\<lambda>(a, b). (c # a, b)) (split_double_colon (d # cs)))"

definition parse_qualname :: "string \<Rightarrow> error + string \<times> string" where
  "parse_qualname qn =
     (case split_double_colon qn of
        None \<Rightarrow>
          Inl (ValueError (''Expected there to be a namespace in '' @ qn @ '', i.e. The '' @
                           ''operator name should look something like ns::foo''))
      | Some (ns, name) \<Rightarrow>
          if CHR ''.'' \<in> set name then
            Inl (ValueError (''The torch.custom_ops APIs do not handle overloads, '' @
                             ''i.e. operator names with '' @ [CHR 0x27, CHR ''.'', CHR 0x27] @
                             '' in them. '' @
                             ''Please name your operator something like ns::foo. '' @
                             ''Got: '' @ qn))
          else Inr (ns, name))"

definition validate_namespace :: "string \<Rightarrow> error + unit" where
  "validate_namespace ns =
     (if CHR ''.'' \<in> set ns then
        Inl (ValueError (''custom_op(..., ns='' @ [CHR 0x22] @ ns @ [CHR 0x22] @
                         ''): expected ns to not contain any . (and be a '' @
                         ''valid variable name)''))
      else if ns \<in> RESERVED_NS then
        Inl (ValueError (''custom_op(..., ns='' @ [CHR 0x27] @ ns @ [CHR 0x27] @ ''): '' @
                         [CHR 0x27] @ ns @ [CHR 0x27] @ '' is a reserved namespace, '' @
                         ''please choose something else. ''))
      else Inr ())"

definition validate_device_type :: "string \<Rightarrow> error + unit" where
  "validate_device_type device_type =
     (if SUPPORTED_DEVICE_TYPE_TO_KEY device_type = None then
        Inl (ValueError (''CustomOp.impl(device_types=['' @ device_type @
                         '', ...]): we only support device_type '' @
                         ''in dict_keys(['' @ [CHR 0x27] @ ''cpu'' @ [CHR 0x27] @ '', '' @
                         [CHR 0x27] @ ''cuda'' @ [CHR 0x27] @ '']).''))
      else Inr ())"

subsection \<open>The host library\<close>

text \<open>
  The kernel handed to \<^verbatim>\<open>library.impl\<close>: a user function as it is, the closure
  \<^verbatim>\<open>autograd_kernel_indirection(weakref.proxy(self))\<close>, or the wrapper \<^verbatim>\<open>f_with_ctx\<close>
  that \<^verbatim>\<open>impl_abstract\<close> builds around a user function.
\<close>

datatype 'f kernel = User_kernel 'f | Autograd_kernel_indirection | Kernel_with_ctx 'f

text \<open>
  What the code calls but does not define: \<^verbatim>\<open>torch.library\<close>, the dispatcher
  (\<^verbatim>\<open>torch._C\<close>), \<^verbatim>\<open>torch.ops\<close>, torchgen's schema parser,
  \<^verbatim>\<open>construct_autograd_kernel\<close> and the iteration order of a Python \<^verbatim>\<open>set\<close>.
  They are parameters.  \<open>'h\<close> is the state of the host; a call that may change it
  returns its outcome and the state after the call.  \<open>ops_packet_default\<close> is \<open>None\<close>
  when the packet has no attribute \<^verbatim>\<open>default\<close>.
\<close>

record ('f, 'o, 'h) host =
  library_Library :: "string \<Rightarrow> string \<Rightarrow> 'h \<Rightarrow> (error + unit) \<times> 'h"
  library_define :: "Library \<Rightarrow> string \<Rightarrow> 'h \<Rightarrow> (error + unit) \<times> 'h"
  library_impl :: "Library \<Rightarrow> string \<Rightarrow> string \<Rightarrow> 'f kernel \<Rightarrow> 'h \<Rightarrow> (error + unit) \<times> 'h"
  dispatch_has_kernel_for_dispatch_key :: "'h \<Rightarrow> string \<Rightarrow> string \<Rightarrow> bool"
  dispatch_has_computed_kernel_for_dispatch_key :: "'h \<Rightarrow> string \<Rightarrow> string \<Rightarrow> bool"
  dispatch_find_schema_or_throw :: "'h \<Rightarrow> string \<Rightarrow> string \<Rightarrow> error + 'o"
  dispatch_set_report_error_callback :: "'o \<Rightarrow> 'h \<Rightarrow> (error + unit) \<times> 'h"
  ops_hasattr :: "'h \<Rightarrow> string \<Rightarrow> bool"
  opnamespace_hasattr :: "'h \<Rightarrow> string \<Rightarrow> string \<Rightarrow> bool"
  opnamespace_delattr :: "string \<Rightarrow> string \<Rightarrow> 'h \<Rightarrow> 'h"
  ops_packet_default :: "'h \<Rightarrow> string \<Rightarrow> string \<Rightarrow> 'o option"
  FunctionSchema_parse :: "string \<Rightarrow> error + FunctionSchema"
  is_functional_schema :: "FunctionSchema \<Rightarrow> bool"
  str_Type :: "Type \<Rightarrow> string"
  construct_autograd_kernel ::
    "FunctionSchema \<Rightarrow> od_arg \<Rightarrow> ('f, 'o) CustomOp \<Rightarrow> 'o \<Rightarrow> 'f \<Rightarrow> 'f \<Rightarrow> error + 'f"
  set_iteration :: "string list \<Rightarrow> string list"

text \<open>Reading \<^verbatim>\<open>self._lib\<close>, an \<^verbatim>\<open>AttributeError\<close> once the attribute is deleted.\<close>

definition get_lib :: "('f, 'o) CustomOp \<Rightarrow> error + Library" where
  "get_lib self =
     (case lib self of
        None \<Rightarrow> Inl (AttributeError (''_lib''))
      | Some l \<Rightarrow> Inr l)"

text \<open>\<^verbatim>\<open>self._get_impl(kind).func\<close> and \<^verbatim>\<open>self._get_impl(kind).location\<close>.\<close>

definition get_impl_func :: "('f, 'o) CustomOp \<Rightarrow> string \<Rightarrow> error + 'f" where
  "get_impl_func self kind =
     (case get_impl self kind of
        Inl e \<Rightarrow> Inl e
      | Inr None \<Rightarrow> Inl (AttributeError ''func'')
      | Inr (Some fl) \<Rightarrow> Inr (func fl))"

definition get_impl_location :: "('f, 'o) CustomOp \<Rightarrow> string \<Rightarrow> error + string" where
  "get_impl_location self kind =
     (case get_impl self kind of
        Inl e \<Rightarrow> Inl e
      | Inr None \<Rightarrow> Inl (AttributeError ''location'')
      | Inr (Some fl) \<Rightarrow> Inr (location fl))"


subsection \<open>Registering implementations for device types\<close>

text \<open>\<^verbatim>\<open>CustomOp._check_doesnt_have_library_impl(device_type)\<close>.\<close>

definition check_doesnt_have_library_impl ::
  "('f, 'o, 'h) host \<Rightarrow> ('f, 'o) CustomOp \<Rightarrow> 'h \<Rightarrow> string \<Rightarrow> error + unit" where
  "check_doesnt_have_library_impl H self h device_type =
     (if has_impl self device_type then Inr ()
      else
        (case SUPPORTED_DEVICE_TYPE_TO_KEY device_type of
           None \<Rightarrow> Inl (KeyError device_type)
         | Some key \<Rightarrow>
             if dispatch_has_computed_kernel_for_dispatch_key H h (qualname self) key then
               Inl (RuntimeError (''impl(..., device_types='' @ device_type @ ''): the operator '' @
                      qualname self @ '' '' @
                      ''already has an implementation for this device type via a '' @
                      ''pre-existing torch.library or TORCH_LIBRARY registration.''))
             else Inr ()))"

text \<open>
  The argument \<^verbatim>\<open>device_types\<close> of \<^verbatim>\<open>CustomOp.impl\<close>: a \<^verbatim>\<open>str\<close> or an iterable of
  strings that can be traversed more than once (a list, a tuple).
\<close>

datatype device_types_arg = Device_type string | Device_types "string list"

fun validate_device_types :: "string list \<Rightarrow> error + unit" where
  "validate_device_types [] = Inr ()"
| "validate_device_types (device_type # rest) =
     (case validate_device_type device_type of
        Inl e \<Rightarrow> Inl e
      | Inr u \<Rightarrow> validate_device_types rest)"

text \<open>
  \<^verbatim>\<open>CustomOp.impl(device_types)\<close> up to the point where it returns the decorator
  \<^verbatim>\<open>inner\<close>: the list of device types that the decorator closes over, or the error.
\<close>

definition impl :: "device_types_arg \<Rightarrow> error + string list" where
  "impl device_types =
     (let device_types = (case device_types of Device_type s \<Rightarrow> [s] | Device_types l \<Rightarrow> l)
      in case validate_device_types device_types of
           Inl e \<Rightarrow> Inl e
         | Inr u \<Rightarrow> Inr device_types)"

text \<open>
  The loop of the decorator \<^verbatim>\<open>inner(f)\<close> of \<^verbatim>\<open>CustomOp.impl\<close>, over the device types
  in the order in which the set is iterated.
\<close>

fun impl_loop ::
  "('f, 'o, 'h) host \<Rightarrow> 'f \<Rightarrow> frameinfo \<Rightarrow> string list \<Rightarrow> ('f, 'o) CustomOp \<times> 'h \<Rightarrow>
   (error + unit) \<times> ('f, 'o) CustomOp \<times> 'h" where
  "impl_loop H f frame [] (self, h) = (Inr (), self, h)"
| "impl_loop H f frame (device_type # rest) (self, h) =
     (case check_doesnt_have_library_impl H self h device_type of
        Inl e \<Rightarrow> (Inl e, self, h)
      | Inr u \<Rightarrow>
          (case register_impl self device_type f frame of
             (Inl e, self1) \<Rightarrow> (Inl e, self1, h)
           | (Inr u, self1) \<Rightarrow>
               (case SUPPORTED_DEVICE_TYPE_TO_KEY device_type of
                  None \<Rightarrow> (Inl (KeyError device_type), self1, h)
                | Some dispatch_key \<Rightarrow>
                    (case get_lib self1 of
                       Inl e \<Rightarrow> (Inl e, self1, h)
                     | Inr l \<Rightarrow>
                         (case library_impl H l (opname self1) dispatch_key (User_kernel f) h of
                            (Inl e, h1) \<Rightarrow> (Inl e, self1, h1)
                          | (Inr u, h1) \<Rightarrow> impl_loop H f frame rest (self1, h1))))))"

definition impl_inner ::
  "('f, 'o, 'h) host \<Rightarrow> string list \<Rightarrow> 'f \<Rightarrow> frameinfo \<Rightarrow> ('f, 'o) CustomOp \<times> 'h \<Rightarrow>
   (error + 'f) \<times> ('f, 'o) CustomOp \<times> 'h" where
  "impl_inner H device_types f frame st =
     (case impl_loop H f frame (set_iteration H device_types) st of
        (Inl e, st1) \<Rightarrow> (Inl e, st1)
      | (Inr u, st1) \<Rightarrow> (Inr f, st1))"

text \<open>The decorator applied: \<^verbatim>\<open>self.impl(device_types)(f)\<close>.\<close>

definition impl_decorate ::
  "('f, 'o, 'h) host \<Rightarrow> device_types_arg \<Rightarrow> 'f \<Rightarrow> frameinfo \<Rightarrow> ('f, 'o) CustomOp \<times> 'h \<Rightarrow>
   (error + 'f) \<times> ('f, 'o) CustomOp \<times> 'h" where
  "impl_decorate H device_types f frame st =
     (case impl device_types of
        Inl e \<Rightarrow> (Inl e, st)
      | Inr dts \<Rightarrow> impl_inner H dts f frame st)"

text \<open>\<^verbatim>\<open>self.impl_factory()(f)\<close>.\<close>

definition impl_factory ::
  "('f, 'o, 'h) host \<Rightarrow> 'f \<Rightarrow> frameinfo \<Rightarrow> ('f, 'o) CustomOp \<times> 'h \<Rightarrow>
   (error + 'f) \<times> ('f, 'o) CustomOp \<times> 'h" where
  "impl_factory H f frame st =
     (case st of (self, h) \<Rightarrow>
        (case register_impl self ''factory'' f frame of
           (Inl e, self1) \<Rightarrow> (Inl e, self1, h)
         | (Inr u, self1) \<Rightarrow>
             (case get_lib self1 of
                Inl e \<Rightarrow> (Inl e, self1, h)
              | Inr l \<Rightarrow>
                  (case library_impl H l (opname self1) ''BackendSelect'' (User_kernel f) h of
                     (Inl e, h1) \<Rightarrow> (Inl e, self1, h1)
                   | (Inr u, h1) \<Rightarrow> (Inr f, self1, h1)))))"

subsection \<open>Registering an abstract implementation\<close>

text \<open>\<^verbatim>\<open>CustomOp._check_doesnt_have_library_meta_impl()\<close>.\<close>

definition check_doesnt_have_library_meta_impl ::
  "('f, 'o, 'h) host \<Rightarrow> ('f, 'o) CustomOp \<Rightarrow> 'h \<Rightarrow> error + unit" where
  "check_doesnt_have_library_meta_impl H self h =
     (if has_impl self ''abstract'' then Inr ()
      else if dispatch_has_kernel_for_dispatch_key H h (qualname self) ''CompositeExplicitAutograd''
              \<and> \<not> dispatch_has_kernel_for_dispatch_key H h (qualname self) ''Meta''
      then Inr ()
      else if dispatch_has_kernel_for_dispatch_key H h (qualname self) ''CompositeImplicitAutograd''
      then
        Inl (RuntimeError (''impl_abstract(...): the operator '' @ qualname self @ '' '' @
               ''already has an implementation for this device type via a '' @
               ''pre-existing registration to DispatchKey::CompositeImplicitAutograd.'' @
               ''CompositeImplicitAutograd operators do not need an abstract impl; '' @
               ''instead, the operator will decompose into its constituents and those '' @
               ''can have abstract impls defined on them.''))
      else if dispatch_has_kernel_for_dispatch_key H h (qualname self) ''Meta'' then
        Inl (RuntimeError (''impl_abstract(...): the operator '' @ qualname self @ '' '' @
               ''already has an DispatchKey::Meta implementation via a '' @
               ''pre-existing torch.library or TORCH_LIBRARY registration. '' @
               ''Please either remove that registration or don'' @ [CHR 0x27] @
               ''t call impl_abstract.''))
      else Inr ())"

text \<open>\<^verbatim>\<open>self.impl_abstract()(f)\<close>.\<close>

definition impl_abstract ::
  "('f, 'o, 'h) host \<Rightarrow> 'f \<Rightarrow> frameinfo \<Rightarrow> ('f, 'o) CustomOp \<times> 'h \<Rightarrow>
   (error + 'f) \<times> ('f, 'o) CustomOp \<times> 'h" where
  "impl_abstract H f frame st =
     (case st of (self, h) \<Rightarrow>
        (case check_doesnt_have_library_meta_impl H self h of
           Inl e \<Rightarrow> (Inl e, self, h)
         | Inr u \<Rightarrow>
             (case register_impl self ''abstract'' f frame of
                (Inl e, self1) \<Rightarrow> (Inl e, self1, h)
              | (Inr u, self1) \<Rightarrow>
                  (case get_impl_location self1 ''abstract'' of
                     Inl e \<Rightarrow> (Inl e, self1, h)
                   | Inr loc \<Rightarrow>
                       (case get_lib self1 of
                          Inl e \<Rightarrow> (Inl e, self1, h)
                        | Inr l \<Rightarrow>
                            (case library_impl H l (opname self1) ''Meta'' (Kernel_with_ctx f) h of
                               (Inl e, h1) \<Rightarrow> (Inl e, self1, h1)
                             | (Inr u, h1) \<Rightarrow> (Inr f, self1, h1)))))))"

subsection \<open>Registering a backward formula\<close>

text \<open>The nested \<^verbatim>\<open>error(detail)\<close> of \<^verbatim>\<open>_check_can_register_backward\<close>.\<close>

definition backward_error :: "('f, 'o) CustomOp \<Rightarrow> string \<Rightarrow> error" where
  "backward_error self detail =
     RuntimeError (''Cannot use torch._custom_ops APIs to register backward '' @
                   ''formula for '' @ detail @ ''. Got operator '' @
                   qualname self @ '' with schema: '' @ schema_str (schema self))"

definition allowed_return_types :: "Type \<rightharpoonup> string" where
  "allowed_return_types =
     py_dict [(BaseType BaseTy_int, ''int''),
              (BaseType BaseTy_SymInt, ''SymInt''),
              (BaseType BaseTy_bool, ''bool''),
              (BaseType BaseTy_float, ''float''),
              (BaseType BaseTy_Tensor, ''Tensor''),
              (ListType (BaseType BaseTy_Tensor) None, ''List[Tensor]'')]"

fun check_return_types ::
  "('f, 'o, 'h) host \<Rightarrow> ('f, 'o) CustomOp \<Rightarrow> Return list \<Rightarrow> error + unit" where
  "check_return_types H self [] = Inr ()"
| "check_return_types H self (ret # rest) =
     (if allowed_return_types (ret_type ret) \<noteq> None then check_return_types H self rest
      else Inl (backward_error self
             (''operator with return not in '' @
              ''['int', 'SymInt', 'bool', 'float', 'Tensor', 'List[Tensor]']'' @
              '' (got '' @ str_Type H (ret_type ret) @ '')'')))"

definition is_non_mutating_view :: "Return \<Rightarrow> bool" where
  "is_non_mutating_view r =
     (case ret_annotation r of None \<Rightarrow> False | Some a \<Rightarrow> \<not> is_write a)"

text \<open>\<^verbatim>\<open>CustomOp._check_can_register_backward()\<close>.\<close>

definition check_can_register_backward ::
  "('f, 'o, 'h) host \<Rightarrow> ('f, 'o) CustomOp \<Rightarrow> error + unit" where
  "check_can_register_backward H self =
     (let rets = returns (schema self) in
      if schema_kind (schema self) \<noteq> functional then
        Inl (backward_error self ''non-functional operator'')
      else if rets = [] then
        Inl (backward_error self ''operator with no returns'')
      else if \<not> 0 < length rets then Inl AssertionError
      else if filter is_non_mutating_view rets \<noteq> [] then
        Inl (backward_error self ''operator that returns views'')
      else check_return_types H self rets)"

text \<open>\<^verbatim>\<open>CustomOp._check_doesnt_have_library_autograd_impl()\<close>.\<close>

definition check_doesnt_have_library_autograd_impl ::
  "('f, 'o, 'h) host \<Rightarrow> ('f, 'o) CustomOp \<Rightarrow> 'h \<Rightarrow> error + unit" where
  "check_doesnt_have_library_autograd_impl H self h =
     (if registered_autograd_kernel_indirection self then Inr ()
      else if dispatch_has_kernel_for_dispatch_key H h (qualname self) ''CompositeImplicitAutograd''
      then
        Inl (RuntimeError (''impl_backward/impl_save_for_backward: the operator '' @
               qualname self @ '' '' @
               ''already has an implementation for this device type via a '' @
               ''pre-existing registration to DispatchKey::CompositeImplicitAutograd.'' @
               ''CompositeImplicitAutograd operators do not need an autograd formula; '' @
               ''instead, the operator will decompose into its constituents and those '' @
               ''can have autograd formulas defined on them.''))
      else
        (case find (\<lambda>key. dispatch_has_kernel_for_dispatch_key H h (qualname self) key)
                [''Autograd'', ''AutogradCPU'', ''AutogradCUDA''] of
           Some key \<Rightarrow>
             Inl (RuntimeError (''impl_backward/impl_save_for_backward: '' @
                    ''the operator '' @ qualname self @ '' already has an Autograd kernel '' @
                    ''registered to DispatchKey::'' @ key @ '' vi a pre-existing '' @
                    ''torch.library or TORCH_LIBRARY registration. Please either '' @
                    ''remove those registrations or don'' @ [CHR 0x27] @
                    ''t use the torch._custom_ops APIs''))
         | None \<Rightarrow> Inr ()))"

text \<open>\<^verbatim>\<open>CustomOp._register_autograd_kernel_indirection()\<close>.\<close>

definition register_autograd_kernel_indirection ::
  "('f, 'o, 'h) host \<Rightarrow> ('f, 'o) CustomOp \<times> 'h \<Rightarrow> (error + unit) \<times> ('f, 'o) CustomOp \<times> 'h" where
  "register_autograd_kernel_indirection H st =
     (case st of (self, h) \<Rightarrow>
        if registered_autograd_kernel_indirection self then (Inl AssertionError, self, h)
        else
          (case get_lib self of
             Inl e \<Rightarrow> (Inl e, self, h)
           | Inr l \<Rightarrow>
               (case library_impl H l (opname self) ''Autograd'' Autograd_kernel_indirection h of
                  (Inl e, h1) \<Rightarrow> (Inl e, self, h1)
                | (Inr u, h1) \<Rightarrow>
                    (Inr (), self\<lparr>registered_autograd_kernel_indirection := True\<rparr>, h1))))"

text \<open>\<^verbatim>\<open>get_op(qualname)\<close>.\<close>

definition error_not_found :: "string \<Rightarrow> error" where
  "error_not_found qn =
     ValueError (''Could not find the operator '' @ qn @ ''. Please make sure you have '' @
                 ''already registered the operator and (if registered from C++) '' @
                 ''loaded it via torch.ops.load_library.'')"

definition get_op :: "('f, 'o, 'h) host \<Rightarrow> 'h \<Rightarrow> string \<Rightarrow> error + 'o" where
  "get_op H h qn =
     (case parse_qualname qn of
        Inl e \<Rightarrow> Inl e
      | Inr (ns, name) \<Rightarrow>
          if \<not> ops_hasattr H h ns then Inl (error_not_found qn)
          else if \<not> opnamespace_hasattr H h ns name then Inl (error_not_found qn)
          else
            (case ops_packet_default H h ns name of
               None \<Rightarrow> Inl (error_not_found qn)
             | Some packet_default \<Rightarrow> Inr packet_default))"

text \<open>
  \<^verbatim>\<open>CustomOp._register_autograd_kernel()\<close>; \<open>frame\<close> is the frame that its call of
  \<^verbatim>\<open>_register_impl\<close> finds two levels up.
\<close>

definition register_autograd_kernel ::
  "('f, 'o, 'h) host \<Rightarrow> frameinfo \<Rightarrow> ('f, 'o) CustomOp \<times> 'h \<Rightarrow>
   (error + unit) \<times> ('f, 'o) CustomOp \<times> 'h" where
  "register_autograd_kernel H frame st =
     (case st of (self, h) \<Rightarrow>
        if \<not> has_impl self ''backward'' then (Inl AssertionError, self, h)
        else if \<not> has_impl self ''save_for_backward'' then (Inl AssertionError, self, h)
        else
          (case output_differentiability self of
             None \<Rightarrow> (Inl (AttributeError ''_output_differentiability''), self, h)
           | Some od \<Rightarrow>
               (case get_op H h (qualname self) of
                  Inl e \<Rightarrow> (Inl e, self, h)
                | Inr op \<Rightarrow>
                    (case get_impl_func self ''save_for_backward'' of
                       Inl e \<Rightarrow> (Inl e, self, h)
                     | Inr save_fn \<Rightarrow>
                         (case get_impl_func self ''backward'' of
                            Inl e \<Rightarrow> (Inl e, self, h)
                          | Inr backward_fn \<Rightarrow>
                              (case construct_autograd_kernel H (schema self) od self op
                                      save_fn backward_fn of
                                 Inl e \<Rightarrow> (Inl e, self, h)
                               | Inr autograd_kernel \<Rightarrow>
                                   (case register_impl self ''autograd'' autograd_kernel frame of
                                      (r, self1) \<Rightarrow> (r, self1, h))))))))"

text \<open>
  \<^verbatim>\<open>self.impl_save_for_backward()(f)\<close>.  \<open>frame\<close> is the frame recorded for \<open>f\<close>,
  \<open>kframe\<close> the one recorded for the autograd kernel when it is constructed.
\<close>

definition impl_save_for_backward ::
  "('f, 'o, 'h) host \<Rightarrow> 'f \<Rightarrow> frameinfo \<Rightarrow> frameinfo \<Rightarrow> ('f, 'o) CustomOp \<times> 'h \<Rightarrow>
   (error + unit) \<times> ('f, 'o) CustomOp \<times> 'h" where
  "impl_save_for_backward H f frame kframe st =
     (case st of (self, h) \<Rightarrow>
        (case check_can_register_backward H self of
           Inl e \<Rightarrow> (Inl e, self, h)
         | Inr u \<Rightarrow>
             (case check_doesnt_have_library_autograd_impl H self h of
                Inl e \<Rightarrow> (Inl e, self, h)
              | Inr u \<Rightarrow>
                  (case (if \<not> registered_autograd_kernel_indirection self
                         then register_autograd_kernel_indirection H (self, h)
                         else (Inr (), self, h)) of
                     (Inl e, st1) \<Rightarrow> (Inl e, st1)
                   | (Inr u, self1, h1) \<Rightarrow>
                       (case register_impl self1 ''save_for_backward'' f frame of
                          (Inl e, self2) \<Rightarrow> (Inl e, self2, h1)
                        | (Inr u, self2) \<Rightarrow>
                            if has_impl self2 ''backward''
                            then register_autograd_kernel H kframe (self2, h1)
                            else (Inr (), self2, h1))))))"

text \<open>
  \<^verbatim>\<open>CustomOp.impl_backward(output_differentiability)\<close> up to the point where it returns
  the decorator: the checks on \<^verbatim>\<open>output_differentiability\<close>.
\<close>

definition yell :: "py_reprs \<Rightarrow> od_arg \<Rightarrow> error" where
  "yell R od =
     RuntimeError (''impl_backward(output_differentiability): expected '' @
                   ''output_differentiability to be a list of bools with '' @
                   ''length equal to the number of outputs of this CustomOp '' @
                   ''got: '' @ repr_od R od)"

definition impl_backward_check ::
  "py_reprs \<Rightarrow> ('f, 'o) CustomOp \<Rightarrow> od_arg \<Rightarrow> error + unit" where
  "impl_backward_check R self od =
     (case od of
        OD_None \<Rightarrow> Inr ()
      | OD_not_list \<Rightarrow> Inl (yell R od)
      | OD_list items \<Rightarrow>
          if Item_not_bool \<in> set items then Inl (yell R od)
          else if length (returns (schema self)) \<noteq> length items then Inl (yell R od)
          else Inr ())"

text \<open>The decorator \<^verbatim>\<open>inner(f)\<close> that \<^verbatim>\<open>impl_backward\<close> returns.\<close>

definition impl_backward_inner ::
  "('f, 'o, 'h) host \<Rightarrow> od_arg \<Rightarrow> 'f \<Rightarrow> frameinfo \<Rightarrow> frameinfo \<Rightarrow> ('f, 'o) CustomOp \<times> 'h \<Rightarrow>
   (error + unit) \<times> ('f, 'o) CustomOp \<times> 'h" where
  "impl_backward_inner H od f frame kframe st =
     (case st of (self, h) \<Rightarrow>
        (case check_can_register_backward H self of
           Inl e \<Rightarrow> (Inl e, self, h)
         | Inr u \<Rightarrow>
             (case check_doesnt_have_library_autograd_impl H self h of
                Inl e \<Rightarrow> (Inl e, self, h)
              | Inr u \<Rightarrow>
                  (case (if \<not> registered_autograd_kernel_indirection self
                         then register_autograd_kernel_indirection H (self, h)
                         else (Inr (), self, h)) of
                     (Inl e, st1) \<Rightarrow> (Inl e, st1)
                   | (Inr u, self1, h1) \<Rightarrow>
                       (case register_impl self1 ''backward'' f frame of
                          (Inl e, self2) \<Rightarrow> (Inl e, self2, h1)
                        | (Inr u, self2) \<Rightarrow>
                            (let self3 = self2\<lparr>output_differentiability := Some od\<rparr> in
                             if has_impl self3 ''save_for_backward''
                             then register_autograd_kernel H kframe (self3, h1)
                             else (Inr (), self3, h1)))))))"

text \<open>The decorator applied: \<^verbatim>\<open>self.impl_backward(output_differentiability)(f)\<close>.\<close>

definition impl_backward ::
  "('f, 'o, 'h) host \<Rightarrow> py_reprs \<Rightarrow> od_arg \<Rightarrow> 'f \<Rightarrow> frameinfo \<Rightarrow> frameinfo \<Rightarrow>
   ('f, 'o) CustomOp \<times> 'h \<Rightarrow> (error + unit) \<times> ('f, 'o) CustomOp \<times> 'h" where
  "impl_backward H R od f frame kframe st =
     (case impl_backward_check R (fst st) od of
        Inl e \<Rightarrow> (Inl e, st)
      | Inr u \<Rightarrow> impl_backward_inner H od f frame kframe st)"

subsection \<open>Sequences of registrations\<close>

text \<open>
  The registration methods that a user of a \<^verbatim>\<open>CustomOp\<close> calls, and a caller that makes
  such calls one after the other on the same object, going on after a call that raised;
  it collects the outcomes.
\<close>

datatype 'f api_call =
    Call_impl device_types_arg 'f frameinfo
  | Call_impl_factory 'f frameinfo
  | Call_impl_abstract 'f frameinfo
  | Call_impl_save_for_backward 'f frameinfo frameinfo
  | Call_impl_backward od_arg 'f frameinfo frameinfo

definition ignore_value ::
  "(error + 'a) \<times> 's \<Rightarrow> (error + unit) \<times> 's" where
  "ignore_value r = (case r of (Inl e, s) \<Rightarrow> (Inl e, s) | (Inr x, s) \<Rightarrow> (Inr (), s))"

fun run_call ::
  "('f, 'o, 'h) host \<Rightarrow> py_reprs \<Rightarrow> 'f api_call \<Rightarrow> ('f, 'o) CustomOp \<times> 'h \<Rightarrow>
   (error + unit) \<times> ('f, 'o) CustomOp \<times> 'h" where
  "run_call H R (Call_impl dts f frame) st = ignore_value (impl_decorate H dts f frame st)"
| "run_call H R (Call_impl_factory f frame) st = ignore_value (impl_factory H f frame st)"
| "run_call H R (Call_impl_abstract f frame) st = ignore_value (impl_abstract H f frame st)"
| "run_call H R (Call_impl_save_for_backward f frame kframe) st =
     impl_save_for_backward H f frame kframe st"
| "run_call H R (Call_impl_backward od f frame kframe) st =
     impl_backward H R od f frame kframe st"

fun run_calls ::
  "('f, 'o, 'h) host \<Rightarrow> py_reprs \<Rightarrow> 'f api_call list \<Rightarrow> ('f, 'o) CustomOp \<times> 'h \<Rightarrow>
   (error + unit) list \<times> ('f, 'o) CustomOp \<times> 'h" where
  "run_calls H R [] st = ([], st)"
| "run_calls H R (c # cs) st =
     (case run_call H R c st of
        (r, st1) \<Rightarrow> (case run_calls H R cs st1 of (rs, st2) \<Rightarrow> (r # rs, st2)))"

subsection \<open>Declaring an operator\<close>

text \<open>
  The Python object handed to the decorator: whether \<^verbatim>\<open>inspect.isfunction\<close> holds of it,
  \<^verbatim>\<open>str(type(func))\<close>, its \<^verbatim>\<open>__name__\<close>, \<^verbatim>\<open>__module__\<close> and \<^verbatim>\<open>__doc__\<close>, and its
  \<^verbatim>\<open>inspect.signature\<close>.
\<close>

record py_function =
  is_function :: bool
  type_str :: string
  fn_name :: string
  fn_module :: string
  fn_doc :: "string option"
  fn_signature :: Signature

text \<open>\<^verbatim>\<open>validate_schema(schema)\<close>.\<close>

definition validate_schema :: "('f, 'o, 'h) host \<Rightarrow> FunctionSchema \<Rightarrow> error + unit" where
  "validate_schema H sch =
     (if \<not> is_functional_schema H sch then
        Inl (ValueError (''custom_op only supports functional operators '' @
                         ''(ops that do not mutate any inputs, do not return '' @
                         ''views of the inputs, and has at least one return). '' @
                         ''Got the following non-functional schema: '' @ schema_str sch))
      else if self_arg sch \<noteq> None then
        Inl (ValueError (''custom_op does not support arguments named 'self'. Please '' @
                         ''rename your argument. Got: '' @ schema_str sch))
      else Inr ())"

text \<open>
  \<^verbatim>\<open>validate_function_matches_schema(schema, func)\<close>, with its nested \<^verbatim>\<open>error\<close>,
  \<^verbatim>\<open>error_default_args\<close> and \<^verbatim>\<open>compare\<close>.
\<close>

definition matches_error :: "FunctionSchema \<Rightarrow> Signature \<Rightarrow> error" where
  "matches_error sch sig =
     ValueError (''custom_op(..., manual_schema)(func): When passing in a manual '' @
                 ''schema, we expect `func`'s signature to match `manual_schema` '' @
                 ''(aside from type annotations). '' @
                 ''func's signature: '' @ sig_str sig @ '', manual_schema: '' @ schema_str sch)"

definition error_default_args :: "FunctionSchema \<Rightarrow> Signature \<Rightarrow> error" where
  "error_default_args sch sig =
     ValueError (''custom_op(..., manual_schema)(func): '' @
                 ''neither func nor manual_schema should have default '' @
                 ''arguments. Got '' @
                 ''func's signature: '' @ sig_str sig @ '', manual_schema: '' @ schema_str sch)"

fun compare_zip ::
  "FunctionSchema \<Rightarrow> Signature \<Rightarrow> Parameter list \<Rightarrow> Argument list \<Rightarrow> error + unit" where
  "compare_zip sch sig (param # sig_args) (arg # schema_args) =
     (if param_name param \<noteq> arg_name arg then Inl (matches_error sch sig)
      else if has_default param \<or> arg_default arg \<noteq> None then Inl (error_default_args sch sig)
      else compare_zip sch sig sig_args schema_args)"
| "compare_zip sch sig sig_args schema_args = Inr ()"

definition compare ::
  "FunctionSchema \<Rightarrow> Signature \<Rightarrow> Parameter list \<Rightarrow> Argument list \<Rightarrow> error + unit" where
  "compare sch sig sig_args schema_args =
     (if length sig_args \<noteq> length schema_args then Inl (matches_error sch sig)
      else compare_zip sch sig sig_args schema_args)"

definition validate_function_matches_schema ::
  "FunctionSchema \<Rightarrow> py_function \<Rightarrow> error + unit" where
  "validate_function_matches_schema sch fn =
     (let sig = fn_signature fn in
      if filter (\<lambda>p. \<not> supported_param p) (parameters sig) \<noteq> [] then
        Inl (ValueError (''custom_op(..., manual_schema)(func): positional-only args, '' @
                         ''varargs, and kwargs are not supported. Please rewrite `func` '' @
                         ''to not have them. Got `func` with signature: '' @ sig_str sig))
      else if filter (\<lambda>p. param_annotation p \<noteq> Annotation_empty) (parameters sig) \<noteq> []
              \<or> return_annotation sig \<noteq> Annotation_empty then
        Inl (ValueError (''custom_op(..., manual_schema)(func): When passing in a manual '' @
                         ''schema, we expect `func` to have no type annotations to avoid '' @
                         ''ambiguity. Got `func` with signature: '' @ sig_str sig))
      else
        (case compare sch sig
                (filter (\<lambda>p. param_kind p = POSITIONAL_OR_KEYWORD) (parameters sig))
                (flat_positional sch) of
           Inl e \<Rightarrow> Inl e
         | Inr u \<Rightarrow>
             compare sch sig
               (filter (\<lambda>p. param_kind p = KEYWORD_ONLY) (parameters sig))
               (flat_kwarg_only sch)))"

text \<open>\<^verbatim>\<open>find_ophandle_or_throw(cpp_ns, operator_name)\<close>.\<close>

definition find_ophandle_or_throw ::
  "('f, 'o, 'h) host \<Rightarrow> 'h \<Rightarrow> string \<Rightarrow> OperatorName \<Rightarrow> error + 'o" where
  "find_ophandle_or_throw H h ns operator_name =
     (let overload = (case overload_name operator_name of None \<Rightarrow> '''' | Some s \<Rightarrow> s)
      in dispatch_find_schema_or_throw H h (ns @ ''::'' @ base_name operator_name) overload)"

text \<open>
  The Python objects and the module-level dictionary \<^verbatim>\<open>global_registry\<close>.  The code
  shares \<^verbatim>\<open>CustomOp\<close> objects by reference (the registry, the caller and the weak
  proxies held by the kernels all refer to the same object), so the objects live in a
  store, by identity; \<open>next_object\<close> is the identity of the next object created.  The
  dictionary is a list of pairs with distinct keys, in the order of insertion.  \<open>held\<close>
  is the set of the objects that variables of the caller refer to, for instance the name
  to which the result of the decorator is bound.

  The registry ``keeps all CustomOps alive'': an object is alive as long as the registry
  or the caller refers to it, and Python frees it as soon as nothing does.  The weak
  proxies that \<^verbatim>\<open>custom_op\<close> hands to the kernels do not keep it alive.
\<close>

record ('f, 'o, 'h) world =
  objects :: "nat \<rightharpoonup> ('f, 'o) CustomOp"
  next_object :: nat
  global_registry :: "(string \<times> nat) list"
  held :: "nat set"
  host_state :: 'h

definition referenced :: "('f, 'o, 'h) world \<Rightarrow> nat \<Rightarrow> bool" where
  "referenced w a = (a \<in> held w \<or> a \<in> snd ` set (global_registry w))"

text \<open>Freeing the objects to which nothing refers any more, after a reference is dropped.\<close>

definition collect :: "('f, 'o, 'h) world \<Rightarrow> ('f, 'o, 'h) world" where
  "collect w = w\<lparr>objects := (\<lambda>a. if referenced w a then objects w a else None)\<rparr>"

text \<open>
  The caller binds a variable to the object with identity \<open>a\<close>, and drops every reference
  it has to it.
\<close>

definition hold :: "nat \<Rightarrow> ('f, 'o, 'h) world \<Rightarrow> ('f, 'o, 'h) world" where
  "hold a w = w\<lparr>held := insert a (held w)\<rparr>"

definition unhold :: "nat \<Rightarrow> ('f, 'o, 'h) world \<Rightarrow> ('f, 'o, 'h) world" where
  "unhold a w = collect (w\<lparr>held := held w - {a}\<rparr>)"

text \<open>
  Reading an object through a reference or a \<^verbatim>\<open>weakref.proxy\<close>; Python raises
  \<^verbatim>\<open>ReferenceError\<close> when the object behind a proxy is gone.
\<close>

definition deref :: "('f, 'o, 'h) world \<Rightarrow> nat \<Rightarrow> error + ('f, 'o) CustomOp" where
  "deref w a = (case objects w a of None \<Rightarrow> Inl ReferenceError | Some self \<Rightarrow> Inr self)"

text \<open>
  \<^verbatim>\<open>CustomOp.__init__(lib, cpp_ns, schema, operator_name, ophandle, _private_access)\<close>.
  The assignment \<^verbatim>\<open>global_registry[self._qualname] = self\<close> drops the reference that an
  entry of that name held.
\<close>

definition CustomOp_init ::
  "Library \<Rightarrow> string \<Rightarrow> FunctionSchema \<Rightarrow> string \<Rightarrow> 'o \<Rightarrow> bool \<Rightarrow> ('f, 'o, 'h) world \<Rightarrow>
   (error + nat) \<times> ('f, 'o, 'h) world" where
  "CustomOp_init l ns sch operator_name oph private_access w =
     (if \<not> private_access then
        (Inl (RuntimeError (''The CustomOp constructor is private and we do not guarantee '' @
                ''BC for it. Please use custom_op(...) to create a CustomOp object'')), w)
      else
        (let name = ns @ ''::'' @ operator_name;
             self = \<lparr>schema = sch, cpp_ns = ns, lib = Some l, ophandle = oph,
                     opname = operator_name, qualname = name,
                     dunder_name = None, dunder_module = None, dunder_doc = None,
                     impls = Map.empty,
                     registered_autograd_kernel_indirection = False,
                     output_differentiability = None\<rparr>;
             a = next_object w
         in (Inr a, collect (w\<lparr>objects := (objects w)(a \<mapsto> self),
                               next_object := Suc a,
                               global_registry := AList.update name a (global_registry w)\<rparr>))))"

definition set_host :: "'h \<Rightarrow> ('f, 'o, 'h) world \<Rightarrow> ('f, 'o, 'h) world" where
  "set_host h w = w\<lparr>host_state := h\<rparr>"

definition update_object ::
  "nat \<Rightarrow> (('f, 'o) CustomOp \<Rightarrow> ('f, 'o) CustomOp) \<Rightarrow> ('f, 'o, 'h) world \<Rightarrow> ('f, 'o, 'h) world" where
  "update_object a g w = w\<lparr>objects := (objects w)(a := map_option g (objects w a))\<rparr>"

text \<open>
  The decorator applied: \<^verbatim>\<open>custom_op(qualname, manual_schema)(func)\<close>.  The result is
  the identity of the new \<^verbatim>\<open>CustomOp\<close>.
\<close>

definition custom_op ::
  "('f, 'o, 'h) host \<Rightarrow> py_reprs \<Rightarrow> string \<Rightarrow> string option \<Rightarrow> py_function \<Rightarrow>
   ('f, 'o, 'h) world \<Rightarrow> (error + nat) \<times> ('f, 'o, 'h) world" where
  "custom_op H R qn manual_schema fn w =
     (if \<not> is_function fn then
        (Inl (ValueError (''custom_op(...)(func): Expected `func` to be a Python '' @
                          ''function, got: '' @ type_str fn)), w)
      else
      (case parse_qualname qn of
         Inl e \<Rightarrow> (Inl e, w)
       | Inr (ns, name) \<Rightarrow>
      (case validate_namespace ns of
         Inl e \<Rightarrow> (Inl e, w)
       | Inr u \<Rightarrow>
      if fn_name fn \<noteq> name then
        (Inl (ValueError (''custom_op(qualname='' @ [CHR 0x27] @ qn @ [CHR 0x27] @
                          '', ...)(func): expected `func` '' @
                          ''to have name '' @ [CHR 0x27] @ name @ [CHR 0x27] @
                          '' but got '' @ [CHR 0x27] @ fn_name fn @ [CHR 0x27] @ ''. '' @
                          ''Please either change the name of `func` or the qualname that '' @
                          ''is passed to `custom_op`'')), w)
      else
      (case (case manual_schema of
               None \<Rightarrow> infer_schema R (fn_signature fn) []
             | Some m \<Rightarrow> Inr m) of
         Inl e \<Rightarrow> (Inl e, w)
       | Inr sch_text \<Rightarrow>
      (let schema_text = name @ sch_text in
      (case FunctionSchema_parse H schema_text of
         Inl e \<Rightarrow> (Inl e, w)
       | Inr function_schema \<Rightarrow>
      (case validate_schema H function_schema of
         Inl e \<Rightarrow> (Inl e, w)
       | Inr u \<Rightarrow>
      (case (if manual_schema \<noteq> None
             then validate_function_matches_schema function_schema fn
             else Inr ()) of
         Inl e \<Rightarrow> (Inl e, w)
       | Inr u \<Rightarrow>
      (case library_Library H ns ''FRAGMENT'' (host_state w) of
         (Inl e, h1) \<Rightarrow> (Inl e, set_host h1 w)
       | (Inr u, h1) \<Rightarrow>
      (let l = \<lparr>lib_ns = ns, lib_kind = ''FRAGMENT''\<rparr> in
      (case library_define H l schema_text h1 of
         (Inl e, h2) \<Rightarrow> (Inl e, set_host h2 w)
       | (Inr u, h2) \<Rightarrow>
      (case find_ophandle_or_throw H h2 ns (schema_name function_schema) of
         Inl e \<Rightarrow> (Inl e, set_host h2 w)
       | Inr oph \<Rightarrow>
      (case CustomOp_init l ns function_schema name oph True (set_host h2 w) of
         (Inl e, w1) \<Rightarrow> (Inl e, w1)
       | (Inr result, w1) \<Rightarrow>
      (let w2 = update_object result
                  (\<lambda>self. self\<lparr>dunder_name := Some (fn_name fn),
                                dunder_module := Some (fn_module fn),
                                dunder_doc := fn_doc fn\<rparr>) w1
       in
      (case library_impl H l name ''Autograd'' Autograd_kernel_indirection (host_state w2) of
         (Inl e, h3) \<Rightarrow> (Inl e, set_host h3 w2)
       | (Inr u, h3) \<Rightarrow>
      (case dispatch_set_report_error_callback H oph h3 of
         (Inl e, h4) \<Rightarrow> (Inl e, set_host h4 w2)
       | (Inr u, h4) \<Rightarrow> (Inr result, set_host h4 w2)))))))))))))))))"

subsection \<open>Destroying an operator, and looking one up\<close>

text \<open>
  \<^verbatim>\<open>CustomOp._destroy()\<close>, called on the object with identity \<open>a\<close>; the state is the
  one after the call has returned.  \<^verbatim>\<open>del global_registry[self._qualname]\<close> drops the
  reference of the registry.
\<close>

definition destroy ::
  "('f, 'o, 'h) host \<Rightarrow> nat \<Rightarrow> ('f, 'o, 'h) world \<Rightarrow> (error + unit) \<times> ('f, 'o, 'h) world" where
  "destroy H a w =
     (case deref w a of
        Inl e \<Rightarrow> (Inl e, w)
      | Inr self \<Rightarrow>
          (case lib self of
             None \<Rightarrow> (Inl (AttributeError ''_lib''), w)
           | Some l \<Rightarrow>
               (let w1 = update_object a (\<lambda>self. self\<lparr>lib := None\<rparr>) w;
                    h = host_state w1;
                    h1 = (if opnamespace_hasattr H h (cpp_ns self) (opname self)
                          then opnamespace_delattr H (cpp_ns self) (opname self) h
                          else h);
                    w2 = set_host h1 w1
                in if map_of (global_registry w2) (qualname self) = None
                   then (Inl (KeyError (qualname self)), w2)
                   else (Inr (), collect (w2\<lparr>global_registry :=
                                      AList.delete (qualname self) (global_registry w2)\<rparr>)))))"

text \<open>
  \<^verbatim>\<open>get_abstract_impl(qualname)\<close>; \<open>Inr None\<close> is the result \<^verbatim>\<open>None\<close>.  The test
  \<^verbatim>\<open>custom_op is None\<close> never holds, since the constructor is the only writer of the
  registry and stores the object itself.
\<close>

definition get_abstract_impl :: "('f, 'o, 'h) world \<Rightarrow> string \<Rightarrow> error + 'f option" where
  "get_abstract_impl w qn =
     (case map_of (global_registry w) qn of
        None \<Rightarrow> Inr None
      | Some a \<Rightarrow>
          (case deref w a of
             Inl e \<Rightarrow> Inl e
           | Inr self \<Rightarrow>
               if \<not> has_impl self ''abstract'' then Inr None
               else map_sum id Some (get_impl_func self ''abstract'')))"

text \<open>
  \<^verbatim>\<open>_has_impl\<close> and \<^verbatim>\<open>_get_impl\<close> called through a \<^verbatim>\<open>weakref.proxy\<close> of the object with
  identity \<open>a\<close>, as the kernels installed by \<^verbatim>\<open>custom_op\<close> do: the proxy forwards the call
  to the object.
\<close>

definition proxy_has_impl :: "('f, 'o, 'h) world \<Rightarrow> nat \<Rightarrow> string \<Rightarrow> error + bool" where
  "proxy_has_impl w a kind = map_sum id (\<lambda>self. has_impl self kind) (deref w a)"

definition proxy_get_impl ::
  "('f, 'o, 'h) world \<Rightarrow> nat \<Rightarrow> string \<Rightarrow> error + 'f FuncAndLocation option" where
  "proxy_get_impl w a kind =
     (case deref w a of Inl e \<Rightarrow> Inl e | Inr self \<Rightarrow> get_impl self kind)"

text \<open>
  \<^verbatim>\<open>CustomOp._register_impl\<close> called on the object with identity \<open>a\<close> of the store.
\<close>

definition register_impl_at ::
  "nat \<Rightarrow> string \<Rightarrow> 'f \<Rightarrow> frameinfo \<Rightarrow> ('f, 'o, 'h) world \<Rightarrow> (error + unit) \<times> ('f, 'o, 'h) world" where
  "register_impl_at a kind f frame w =
     (case deref w a of
        Inl e \<Rightarrow> (Inl e, w)
      | Inr self \<Rightarrow>
          (case register_impl self kind f frame of
             (r, self1) \<Rightarrow> (r, w\<lparr>objects := (objects w)(a \<mapsto> self1)\<rparr>)))"

subsection \<open>The duplicate check of the library\<close>

text \<open>
  The qualified name of the operator that \<^verbatim>\<open>custom_op(qualname, manual_schema)(func)\<close>
  defines in the library: \<^verbatim>\<open>custom_op\<close> looks the operator up, right after
  \<^verbatim>\<open>lib.define(schema_str)\<close>, under the namespace and the operator name of the parsed
  schema (\<^verbatim>\<open>find_ophandle_or_throw(ns, function_schema.name)\<close>).  \<open>None\<close> where the
  declaration does not get as far as a parsed schema.
\<close>

definition declared_name ::
  "('f, 'o, 'h) host \<Rightarrow> py_reprs \<Rightarrow> string \<Rightarrow> string option \<Rightarrow> py_function \<Rightarrow> string option" where
  "declared_name H R qn manual_schema fn =
     (case parse_qualname qn of
        Inl e \<Rightarrow> None
      | Inr (ns, name) \<Rightarrow>
          (case (case manual_schema of
                   None \<Rightarrow> infer_schema R (fn_signature fn) []
                 | Some m \<Rightarrow> Inr m) of
             Inl e \<Rightarrow> None
           | Inr sch_text \<Rightarrow>
               (case FunctionSchema_parse H (name @ sch_text) of
                  Inl e \<Rightarrow> None
                | Inr function_schema \<Rightarrow>
                    Some (ns @ ''::'' @ base_name (schema_name function_schema)))))"

text \<open>
  Modelled from the spec: the duplicate check of \<^verbatim>\<open>Library.define\<close>; \<^verbatim>\<open>torch.library\<close>
  and the dispatcher behind it are not among the sources.  Section 4.2: \<open>declare\<close> ``fails
  \<open>DuplicateDeclaration\<close> if the name is already live''; section 3: an extension point is
  live from its declaration until its explicit teardown.  \<open>live h n\<close> says that the
  operator of the qualified name \<open>n\<close> is live in the state \<open>h\<close> of the host.  A host follows
  the rule when \<^verbatim>\<open>define\<close> raises \<open>DuplicateDeclaration\<close> for a schema whose operator is
  live, makes the operator of the schema live when it returns, and creating a library
  fragment, registering a kernel and installing the error callback end no operator's
  life; whether a library fragment can be created does not depend on the state.
\<close>

definition follows_duplicate_rule ::
  "('f, 'o, 'h) host \<Rightarrow> ('h \<Rightarrow> string \<Rightarrow> bool) \<Rightarrow> bool" where
  "follows_duplicate_rule H live =
     ((\<forall>l text fs h. FunctionSchema_parse H text = Inr fs \<and>
                     live h (lib_ns l @ ''::'' @ base_name (schema_name fs)) \<longrightarrow>
                     fst (library_define H l text h) = Inl DuplicateDeclaration)
    \<and> (\<forall>l text fs h. FunctionSchema_parse H text = Inr fs \<and>
                     fst (library_define H l text h) = Inr () \<longrightarrow>
                     live (snd (library_define H l text h))
                       (lib_ns l @ ''::'' @ base_name (schema_name fs)))
    \<and> (\<forall>ns k h n. live h n \<longrightarrow> live (snd (library_Library H ns k h)) n)
    \<and> (\<forall>l name key k h n. live h n \<longrightarrow> live (snd (library_impl H l name key k h)) n)
    \<and> (\<forall>oph h n. live h n \<longrightarrow> live (snd (dispatch_set_report_error_callback H oph h)) n)
    \<and> (\<forall>ns k h h'. fst (library_Library H ns k h) = fst (library_Library H ns k h')))"

subsection \<open>Reporting a missing implementation\<close>

text \<open>\<^verbatim>\<open>CustomOp.__repr__()\<close>.\<close>

definition repr_CustomOp :: "('f, 'o) CustomOp \<Rightarrow> string" where
  "repr_CustomOp self = ''<CustomOp(op='' @ [CHR 0x22] @ qualname self @ [CHR 0x22] @ '')>''"

text \<open>
  \<^verbatim>\<open>report_error_callback(custom_op, key)\<close>: it always raises; the result is the
  exception.  In its third branch \<open>key\<close> is \<^verbatim>\<open>CPU\<close> or \<^verbatim>\<open>CUDA\<close>, of which \<open>device\<close> is
  the lower-case form.
\<close>

definition report_error_callback :: "('f, 'o) CustomOp \<Rightarrow> string \<Rightarrow> error" where
  "report_error_callback self key =
     (if key = ''Undefined'' then
        NotImplementedError (repr_CustomOp self @
          '': There were no Tensor inputs to this operator '' @
          ''(e.g. you passed an empty list of Tensors). If your operator is a '' @
          ''factory function (that is, it takes no Tensors and constructs '' @
          ''a new one), then please use CustomOp.impl_factory to register '' @
          ''an implementation for it'')
      else if key = ''Meta'' then
        NotImplementedError (repr_CustomOp self @
          '': when running with device='Meta' tensors: there is no '' @
          ''abstract impl registered for this CustomOp. Please register one via '' @
          ''CustomOp.impl_abstract to get this CustomOp to work with Meta tensors'')
      else if key \<in> {''CPU'', ''CUDA''} then
        (let device = (if key = ''CPU'' then ''cpu'' else ''cuda'') in
         NotImplementedError (repr_CustomOp self @
           '': when running with device='' @ [CHR 0x27] @ device @ [CHR 0x27] @
           '' tensors: there is no '' @
           device @ '' impl registered for this CustomOp. Please register one via '' @
           ''CustomOp.impl(device_type='' @ [CHR 0x27] @ device @ [CHR 0x27] @ '')''))
      else
        NotImplementedError (repr_CustomOp self @
          '': No implementation for dispatch key '' @ key @ ''. It is likely '' @
          ''that we have not added this functionality yet, please either open an '' @
          ''issue or if you'' @ [CHR 0x27] @ ''re feeling adventurous, use the low-level '' @
          ''torch.library API''))"

subsection \<open>Dispatch\<close>

text \<open>
  The runtime properties of one argument of a call (specification, section 6): whether it
  is of the tensor family and, if so, its device kind.
\<close>

record argument_property =
  is_tensor_family :: bool
  device_kind :: string

text \<open>
  The priority order stated in the documentation of \<^verbatim>\<open>CustomOp.impl\<close>: ``The supported
  device types, in order of priority, are \<^verbatim>\<open>{'cuda', 'cpu'}\<close>''.
\<close>

definition device_priority :: "string list" where
  "device_priority = [''cuda'', ''cpu'']"

text \<open>
  Modelled from the spec: the choice of the kind to dispatch on, made by the dispatcher
  behind \<^verbatim>\<open>_C._dispatch_call_boxed\<close>, which is not among the sources.  Section 4.3:
  ``among the kinds present across all tensor-family arguments, pick the highest-priority
  kind per a fixed total order (e.g., accelerator-kind before host-kind)''.  Where no kind
  present is in the order, the kind of the first tensor argument is taken.
\<close>

definition highest_priority :: "string list \<Rightarrow> string option" where
  "highest_priority present =
     (case filter (\<lambda>k. k \<in> set present) device_priority of
        k # ks \<Rightarrow> Some k
      | [] \<Rightarrow> (case present of [] \<Rightarrow> None | k # ks \<Rightarrow> Some k))"

text \<open>
  Modelled from the spec: \<open>select\<close>, the selection of the implementation for a call, done
  by the dispatcher (\<^verbatim>\<open>_C._dispatch_call_boxed\<close>, called by \<^verbatim>\<open>CustomOp.__call__\<close>), which
  is not among the sources.  Section 4.3: with no tensor-family argument the ``factory''
  implementation is selected if there is one, and the selection fails with
  \<open>NoTensorInputs\<close> otherwise; with tensor-family arguments the implementation of the
  highest-priority kind present is selected, and the selection fails with
  \<open>NoImplementation(kind)\<close> if that kind has none.  A failure is raised by the error
  callback that \<^verbatim>\<open>custom_op\<close> installs, \<open>report_error_callback\<close>, called with the
  dispatch key of the missing kind, \<^verbatim>\<open>Undefined\<close> where there is no tensor input.
\<close>

definition select :: "('f, 'o) CustomOp \<Rightarrow> argument_property list \<Rightarrow> error + 'f" where
  "select self args =
     (case highest_priority (map device_kind (filter is_tensor_family args)) of
        None \<Rightarrow>
          if has_impl self ''factory'' then get_impl_func self ''factory''
          else Inl (report_error_callback self ''Undefined'')
      | Some k \<Rightarrow>
          if has_impl self k then get_impl_func self k
          else Inl (report_error_callback self
                      (case SUPPORTED_DEVICE_TYPE_TO_KEY k of Some key \<Rightarrow> key | None \<Rightarrow> k)))"

text \<open>
  Modelled from the spec: the kernel \<^verbatim>\<open>autograd_kernel_indirection\<close> of
  \<^verbatim>\<open>torch/_custom_op/autograd.py\<close>, which is not among the sources, at call time.
  Section 4.4: it ``looks up whatever is currently registered as the effective composed
  behavior'' (the implementation of kind \<^verbatim>\<open>autograd\<close>); ``the composed kernel is only
  live once both sub-pieces are present, and calling before both are present fails
  \<open>IncompleteComposition\<close>''.  The result is the callable that the call runs.
\<close>

definition autograd_kernel_indirection :: "('f, 'o) CustomOp \<Rightarrow> error + 'f" where
  "autograd_kernel_indirection self =
     (if has_impl self ''save_for_backward'' \<and> has_impl self ''backward''
      then get_impl_func self ''autograd''
      else Inl IncompleteComposition)"

subsection \<open>A sample operator\<close>

text \<open>
  The operator \<open>mylib::add_one\<close>, one tensor in and one tensor out, as the constructor
  leaves it: no implementation registered.  Callables are named by strings here.
\<close>

definition add_one_schema :: FunctionSchema where
  "add_one_schema =
     \<lparr>schema_name = \<lparr>base_name = ''add_one'', overload_name = Some ''''\<rparr>,
      schema_kind = functional,
      returns = [\<lparr>ret_type = BaseType BaseTy_Tensor, ret_annotation = None\<rparr>],
      self_arg = None,
      flat_positional = [\<lparr>arg_name = ''x'', arg_default = None\<rparr>],
      flat_kwarg_only = [],
      schema_str = ''add_one(Tensor x) -> Tensor''\<rparr>"

definition add_one_op :: "(string, nat) CustomOp" where
  "add_one_op =
     \<lparr>schema = add_one_schema,
      cpp_ns = ''mylib'',
      lib = Some \<lparr>lib_ns = ''mylib'', lib_kind = ''FRAGMENT''\<rparr>,
      ophandle = 0,
      opname = ''add_one'',
      qualname = ''mylib::add_one'',
      dunder_name = Some ''add_one'',
      dunder_module = Some ''mylib'',
      dunder_doc = None,
      impls = Map.empty,
      registered_autograd_kernel_indirection = False,
      output_differentiability = None\<rparr>"


text \<open>
  The prototype function of \<open>mylib::add_one\<close>, \<^verbatim>\<open>def add_one(x: Tensor) -> Tensor: ...\<close>.
\<close>

definition add_one_fn :: py_function where
  "add_one_fn =
     \<lparr>is_function = True,
      type_str = ''<class 'function'>'',
      fn_name = ''add_one'',
      fn_module = ''mylib'',
      fn_doc = None,
      fn_signature =
        \<lparr>parameters =
           [\<lparr>param_name = ''x'', param_kind = POSITIONAL_OR_KEYWORD,
             param_annotation = Annotation_type torch_Tensor, has_default = False\<rparr>],
         return_annotation = Annotation_type torch_Tensor,
         sig_str = ''(x: torch.Tensor) -> torch.Tensor''\<rparr>\<rparr>"

text \<open>
  The same function written without annotations, \<^verbatim>\<open>def add_one(x): ...\<close>, as a manual
  schema requires.
\<close>

definition add_one_plain_fn :: py_function where
  "add_one_plain_fn =
     \<lparr>is_function = True,
      type_str = ''<class 'function'>'',
      fn_name = ''add_one'',
      fn_module = ''mylib'',
      fn_doc = None,
      fn_signature =
        \<lparr>parameters =
           [\<lparr>param_name = ''x'', param_kind = POSITIONAL_OR_KEYWORD,
             param_annotation = Annotation_empty, has_default = False\<rparr>],
         return_annotation = Annotation_empty,
         sig_str = ''(x)''\<rparr>\<rparr>"

text \<open>
  A host for the examples.  Its state is the list of the qualified names defined and of
  the kernels registered so far, a kernel as \<^verbatim>\<open>namespace/name/key\<close>.  It refuses to define
  a name twice and to register a second kernel for a name and a key, finds the names
  that are defined, has no kernel registered by another route, and accepts everything
  else.  Its schema parser takes the text before the first parenthesis for the name of
  the operator, refuses an empty name and, for the rest, returns the schema of
  \<open>add_one\<close>.
\<close>

definition sample_host :: "(string, nat, string list) host" where
  "sample_host =
     \<lparr>library_Library = (\<lambda>ns k h. (Inr (), h)),
      library_define = (\<lambda>l text h.
         let qn = lib_ns l @ ''::'' @ takeWhile (\<lambda>c. c \<noteq> CHR ''('') text
         in if qn \<in> set h then (Inl DuplicateDeclaration, h)
            else (Inr (), qn # h)),
      library_impl = (\<lambda>l name key k h.
         let kk = lib_ns l @ ''/'' @ name @ ''/'' @ key
         in if kk \<in> set h
            then (Inl (RuntimeError
                    (''This is not allowed since there's already a kernel registered '' @
                     ''from python overriding '' @ name @ '''s behavior for '' @ key @
                     '' dispatch key and '' @ lib_ns l @ '' namespace.'')), h)
            else (Inr (), kk # h)),
      dispatch_has_kernel_for_dispatch_key = (\<lambda>h qn key. False),
      dispatch_has_computed_kernel_for_dispatch_key = (\<lambda>h qn key. False),
      dispatch_find_schema_or_throw = (\<lambda>h qn overload.
         if qn \<in> set h then Inr 0 else Inl (RuntimeError (qn @ '' is not defined''))),
      dispatch_set_report_error_callback = (\<lambda>oph h. (Inr (), h)),
      ops_hasattr = (\<lambda>h ns. True),
      opnamespace_hasattr = (\<lambda>h ns name. ns @ ''::'' @ name \<in> set h),
      opnamespace_delattr = (\<lambda>ns name h. h),
      ops_packet_default = (\<lambda>h ns name. Some 0),
      FunctionSchema_parse = (\<lambda>text.
         if takeWhile (\<lambda>c. c \<noteq> CHR ''('') text = [] then Inl AssertionError
         else
         Inr (add_one_schema\<lparr>schema_name :=
                               \<lparr>base_name = takeWhile (\<lambda>c. c \<noteq> CHR ''('') text,
                                overload_name = Some ''''\<rparr>,
                             schema_str := text\<rparr>)),
      is_functional_schema = (\<lambda>sch. True),
      str_Type = (\<lambda>t. ''?''),
      construct_autograd_kernel = (\<lambda>sch od self op save_fn backward_fn.
         Inr (''autograd('' @ save_fn @ '', '' @ backward_fn @ '')'')),
      set_iteration = remdups\<rparr>"

definition sample_reprs :: py_reprs where
  "sample_reprs =
     \<lparr>repr_annotation = (\<lambda>a. ''?''),
      repr_param_types_keys = ''?'',
      repr_return_types = ''?'',
      repr_od = (\<lambda>od. ''?'')\<rparr>"

definition empty_world :: "(string, nat, string list) world" where
  "empty_world =
     \<lparr>objects = Map.empty, next_object = 0, global_registry = [], held = {},
      host_state = []\<rparr>"


text \<open>The state after \<open>mylib::add_one\<close> has been declared, with nothing declared before.\<close>

definition add_one_world :: "(string, nat, string list) world" where
  "add_one_world =
     snd (custom_op sample_host sample_reprs ''mylib::add_one'' None add_one_fn empty_world)"


section \<open>Properties\<close>

subsection \<open>At most one registration per kind\<close>

lemma register_impl_qualname: "qualname (snd (register_impl s k f fr)) = qualname s"
  by (simp add: register_impl_def get_impl_def split: option.splits)

lemma register_impl_keeps_entry:
  assumes "impls s k = Some v"
  shows "impls (snd (register_impl s k' f fr)) k = Some v"
  using assms
  by (cases "k' = k")
     (auto simp: register_impl_def has_impl_def get_impl_def split: option.splits)

lemma register_impls_keeps_entry:
  "impls s k = Some v \<Longrightarrow> impls (register_impls s calls) k = Some v"
proof (induction calls arbitrary: s)
  case Nil
  then show ?case by simp
next
  case (Cons c calls)
  obtain k' f fr where c: "c = (k', f, fr)" by (cases c)
  from Cons.prems have "impls (snd (register_impl s k' f fr)) k = Some v"
    by (rule register_impl_keeps_entry)
  then show ?case unfolding c by (simp add: Cons.IH)
qed

lemma register_impl_success:
  assumes "register_impl s k f fr = (Inr u, s1)"
  shows "impls s1 k = Some (Some \<lparr>func = f, location = frame_location fr\<rparr>)"
  using assms
  by (auto simp: register_impl_def has_impl_def get_impl_def
           split: if_splits option.splits sum.splits)

text \<open>
  C1.  Once \<open>_register_impl\<close> has recorded an implementation for a kind, every later
  \<open>_register_impl\<close> for that kind on the same object (after any number of other
  registrations, whatever callable and frame it is given) raises the \<open>RuntimeError\<close>
  whose message holds the location of the first registration, and leaves the object,
  hence its dictionary of implementations, as it was.
\<close>

theorem register_impl_twice_fails:
  assumes "register_impl s k f1 fr1 = (Inr u, s1)"
    and "s2 = register_impls s1 calls"
  shows "register_impl s2 k f2 fr2 =
           (Inl (RuntimeError (''Attempting to register a '' @ k @ '' impl for operator '' @
              qualname s2 @ '' that already has a '' @ k @
              '' impl registered from Python at '' @ filename fr1 @ '':'' @
              str_nat (lineno fr1) @ ''. This is not supported.'')), s2)"
proof -
  have "impls s1 k = Some (Some \<lparr>func = f1, location = frame_location fr1\<rparr>)"
    using assms(1) by (rule register_impl_success)
  then have "impls s2 k = Some (Some \<lparr>func = f1, location = frame_location fr1\<rparr>)"
    unfolding assms(2) by (rule register_impls_keeps_entry)
  then show ?thesis
    by (simp add: register_impl_def has_impl_def get_impl_def register_impl_message_def
        frame_location_def)
qed

theorem register_impl_twice_fails_witness:
  "fst (register_impl add_one_op ''cpu'' ''add_one_cpu''
          \<lparr>filename = ''ops.py'', lineno = 12\<rparr>) = Inr ()
   \<and> fst (register_impl
            (register_impls
               (snd (register_impl add_one_op ''cpu'' ''add_one_cpu''
                       \<lparr>filename = ''ops.py'', lineno = 12\<rparr>))
               [(''cuda'', ''add_one_cuda'', \<lparr>filename = ''ops.py'', lineno = 20\<rparr>)])
            ''cpu'' ''add_one_cpu'' \<lparr>filename = ''other.py'', lineno = 3\<rparr>)
       = Inl (RuntimeError (''Attempting to register a cpu impl for operator mylib::add_one '' @
                ''that already has a cpu impl registered from Python at ops.py:12. '' @
                ''This is not supported.''))"
proof -
  define s1 where "s1 = snd (register_impl add_one_op ''cpu'' ''add_one_cpu''
                          \<lparr>filename = ''ops.py'', lineno = 12\<rparr>)"
  have first: "register_impl add_one_op ''cpu'' ''add_one_cpu''
          \<lparr>filename = ''ops.py'', lineno = 12\<rparr> = (Inr (), s1)"
    by (simp add: s1_def register_impl_def has_impl_def add_one_op_def)
  have name: "qualname s1 = ''mylib::add_one''"
    by (simp add: s1_def register_impl_qualname add_one_op_def)
  have loc: "str_nat 12 = ''12''"
    by (simp add: str_nat.simps digit_char_def)
  have "fst (register_impl (register_impls s1
               [(''cuda'', ''add_one_cuda'', \<lparr>filename = ''ops.py'', lineno = 20\<rparr>)])
            ''cpu'' ''add_one_cpu'' \<lparr>filename = ''other.py'', lineno = 3\<rparr>)
       = Inl (RuntimeError (''Attempting to register a cpu impl for operator mylib::add_one '' @
                ''that already has a cpu impl registered from Python at ops.py:12. '' @
                ''This is not supported.''))"
    using register_impl_twice_fails [OF first refl,
        of "[(''cuda'', ''add_one_cuda'', \<lparr>filename = ''ops.py'', lineno = 20\<rparr>)]"
           "''add_one_cpu''" "\<lparr>filename = ''other.py'', lineno = 3\<rparr>"]
    by (simp add: name loc register_impl_qualname)
  with first show ?thesis
    unfolding s1_def [symmetric] by simp
qed

subsection \<open>Schema inference\<close>

lemma SUPPORTED_PARAM_TYPES_Tensor: "SUPPORTED_PARAM_TYPES torch_Tensor = Some ''Tensor''"
  by (simp add: SUPPORTED_PARAM_TYPES_def get_supported_param_types_def py_dict_def
      derived_types_def derived_seq_types_def)

lemma SUPPORTED_PARAM_TYPES_int: "SUPPORTED_PARAM_TYPES py_int = Some ''SymInt''"
  by (simp add: SUPPORTED_PARAM_TYPES_def get_supported_param_types_def py_dict_def
      derived_types_def derived_seq_types_def)

lemma SUPPORTED_RETURN_TYPES_Tensor: "SUPPORTED_RETURN_TYPES torch_Tensor = Some ''Tensor''"
  by (simp add: SUPPORTED_RETURN_TYPES_def py_dict_def)

text \<open>
  C5.  For a function with the parameters \<open>(x: Tensor, n: int)\<close> and the return
  annotation \<open>Tensor\<close> (no defaults, no mutated arguments), \<open>infer_schema\<close> returns
  exactly the text \<open>(Tensor x, SymInt n) -> Tensor\<close>.
\<close>

theorem infer_schema_tensor_int:
  "infer_schema R
     \<lparr>parameters =
        [\<lparr>param_name = ''x'', param_kind = POSITIONAL_OR_KEYWORD,
          param_annotation = Annotation_type torch_Tensor, has_default = False\<rparr>,
         \<lparr>param_name = ''n'', param_kind = POSITIONAL_OR_KEYWORD,
          param_annotation = Annotation_type py_int, has_default = False\<rparr>],
      return_annotation = Annotation_type torch_Tensor,
      sig_str = s\<rparr> []
   = Inr ''(Tensor x, SymInt n) -> Tensor''"
  by (simp add: infer_schema_def infer_param_def supported_param_def parse_return_def
      SUPPORTED_PARAM_TYPES_Tensor SUPPORTED_PARAM_TYPES_int SUPPORTED_RETURN_TYPES_Tensor)

subsection \<open>Device types accepted by \<open>impl\<close>\<close>

lemma SUPPORTED_DEVICE_TYPE_TO_KEY_None:
  "SUPPORTED_DEVICE_TYPE_TO_KEY d = None \<longleftrightarrow> d \<notin> {''cpu'', ''cuda''}"
  by (auto simp: SUPPORTED_DEVICE_TYPE_TO_KEY_def py_dict_def)

lemma validate_device_types_ok:
  "set ds \<subseteq> {''cpu'', ''cuda''} \<Longrightarrow> validate_device_types ds = Inr ()"
  by (induction ds) (auto simp: validate_device_type_def SUPPORTED_DEVICE_TYPE_TO_KEY_None)

lemma validate_device_types_error:
  "\<not> set ds \<subseteq> {''cpu'', ''cuda''} \<Longrightarrow> \<exists>msg. validate_device_types ds = Inl (ValueError msg)"
  by (induction ds) (auto simp: validate_device_type_def SUPPORTED_DEVICE_TYPE_TO_KEY_None)

text \<open>
  C10.  \<open>CustomOp.impl\<close> returns its decorator exactly when every device type it is given
  (the string, or every element of the list) is \<open>cpu\<close> or \<open>cuda\<close>.  Otherwise it raises a
  \<open>ValueError\<close>, wherever in the list the offending element stands; the decorator is
  never applied, so the operator and the host are as they were: nothing is registered.
\<close>

theorem impl_validates_device_types:
  fixes device_types :: device_types_arg
  defines "ds \<equiv> (case device_types of Device_type s \<Rightarrow> [s] | Device_types l \<Rightarrow> l)"
  shows "(set ds \<subseteq> {''cpu'', ''cuda''} \<longrightarrow> impl device_types = Inr ds)
       \<and> (\<not> set ds \<subseteq> {''cpu'', ''cuda''} \<longrightarrow>
            (\<exists>msg. impl device_types = Inl (ValueError msg)
                 \<and> impl_decorate H device_types f frame st = (Inl (ValueError msg), st)))"
proof (intro conjI impI)
  assume "set ds \<subseteq> {''cpu'', ''cuda''}"
  then show "impl device_types = Inr ds"
    using validate_device_types_ok [of ds] by (simp add: impl_def ds_def)
next
  assume "\<not> set ds \<subseteq> {''cpu'', ''cuda''}"
  then obtain msg where "validate_device_types ds = Inl (ValueError msg)"
    using validate_device_types_error by blast
  then have "impl device_types = Inl (ValueError msg)"
    by (simp add: impl_def ds_def)
  then show "\<exists>msg. impl device_types = Inl (ValueError msg)
                 \<and> impl_decorate H device_types f frame st = (Inl (ValueError msg), st)"
    by (simp add: impl_decorate_def)
qed

theorem impl_validates_device_types_witness:
  "impl (Device_types [''cpu'', ''cuda'']) = Inr [''cpu'', ''cuda'']
   \<and> (\<exists>msg. impl (Device_types [''cpu'', ''xla'']) = Inl (ValueError msg)
          \<and> impl_decorate sample_host (Device_types [''cpu'', ''xla'']) ''add_one_impl''
               \<lparr>filename = ''ops.py'', lineno = 12\<rparr> (add_one_op, [])
             = (Inl (ValueError msg), add_one_op, []))"
  using impl_validates_device_types [of "Device_types [''cpu'', ''cuda'']"]
    impl_validates_device_types [of "Device_types [''cpu'', ''xla'']" sample_host
      "''add_one_impl''" "\<lparr>filename = ''ops.py'', lineno = 12\<rparr>" "(add_one_op, [])"]
  by simp


subsection \<open>Qualified names\<close>

lemma split_double_colon_append:
  "CHR '':'' \<notin> set ns \<Longrightarrow> split_double_colon (ns @ ''::'' @ nm) = Some (ns, nm)"
proof (induction ns)
  case Nil
  then show ?case by simp
next
  case (Cons c ns)
  then show ?case by (cases ns) auto
qed

lemma split_double_colon_Some:
  "split_double_colon qn = Some (ns, nm) \<Longrightarrow> qn = ns @ ''::'' @ nm"
  by (induction qn arbitrary: ns nm rule: split_double_colon.induct)
     (auto split: if_splits)

lemma split_double_colon_None:
  "split_double_colon qn = None \<Longrightarrow> qn \<noteq> a @ ''::'' @ b"
proof (induction qn arbitrary: a rule: split_double_colon.induct)
  case 1
  then show ?case by simp
next
  case (2 c)
  then show ?case by (cases a) auto
next
  case (3 c d cs)
  then show ?case
    by (cases a) (auto split: if_splits simp: Cons_eq_append_conv)
qed

lemma parse_qualname_error: "parse_qualname qn = Inl e \<Longrightarrow> \<exists>msg. e = ValueError msg"
  by (auto simp: parse_qualname_def split: option.splits if_splits)

lemma validate_namespace_error: "validate_namespace ns = Inl e \<Longrightarrow> \<exists>msg. e = ValueError msg"
  by (auto simp: validate_namespace_def split: if_splits)

lemma custom_op_name_checks:
  assumes "custom_op H R qn m fn w = (r, w')"
  shows "(\<exists>msg. r = Inl (ValueError msg) \<and> w' = w)
       \<or> (is_function fn \<and> (\<exists>ns. parse_qualname qn = Inr (ns, fn_name fn)
                                  \<and> validate_namespace ns = Inr ()))"
proof (cases "is_function fn")
  case False
  with assms show ?thesis by (auto simp: custom_op_def)
next
  case fn: True
  show ?thesis
  proof (cases "parse_qualname qn")
    case (Inl e)
    with assms fn parse_qualname_error [OF Inl] show ?thesis
      by (auto simp: custom_op_def)
  next
    case (Inr p)
    obtain ns name where p: "p = (ns, name)" by (cases p)
    show ?thesis
    proof (cases "validate_namespace ns")
      case (Inl e)
      with assms fn Inr p validate_namespace_error [OF Inl] show ?thesis
        by (auto simp: custom_op_def)
    next
      case ok: (Inr u)
      show ?thesis
      proof (cases "fn_name fn = name")
        case True
        with fn Inr p ok show ?thesis by simp
      next
        case False
        with assms fn Inr p ok show ?thesis
          by (auto simp: custom_op_def)
      qed
    qed
  qed
qed

lemma parse_qualname_split:
  "parse_qualname qn = Inr (ns, nm) \<Longrightarrow>
     split_double_colon qn = Some (ns, nm) \<and> CHR ''.'' \<notin> set nm"
  by (auto simp: parse_qualname_def split: option.splits if_splits)

lemma custom_op_rejects:
  assumes "\<not> (is_function fn \<and> (\<exists>ns. parse_qualname qn = Inr (ns, fn_name fn)
                                   \<and> validate_namespace ns = Inr ()))"
  shows "\<exists>msg. custom_op H R qn m fn w = (Inl (ValueError msg), w)"
proof -
  obtain r w' where res: "custom_op H R qn m fn w = (r, w')"
    by (cases "custom_op H R qn m fn w")
  from custom_op_name_checks [OF res] assms res show ?thesis by auto
qed

text \<open>
  C9.  For every qualified name, which \<open>custom_op\<close> splits at its first \<open>::\<close> into a
  namespace \<open>ns\<close> and a symbol \<open>nm\<close>, and every object \<open>fn\<close> whose \<open>__name__\<close>
  differs from \<open>nm\<close>, the decorator of \<open>custom_op\<close> raises a \<open>ValueError\<close> and leaves
  the whole state as it was: no \<open>CustomOp\<close> is created, the registry gets no entry, the
  host library is not called.  The same with the result of \<open>parse_qualname\<close> in the place
  of the split.
\<close>

theorem custom_op_name_mismatch:
  "(split_double_colon qn = Some (ns, nm) \<and> fn_name fn \<noteq> nm \<longrightarrow>
      (\<exists>msg. custom_op H R qn m fn w = (Inl (ValueError msg), w)))
   \<and> (parse_qualname qn = Inr (ns, nm) \<and> fn_name fn \<noteq> nm \<longrightarrow>
      (\<exists>msg. custom_op H R qn m fn w = (Inl (ValueError msg), w)))"
proof -
  have "\<exists>msg. custom_op H R qn m fn w = (Inl (ValueError msg), w)"
    if s: "split_double_colon qn = Some (ns, nm)" and d: "fn_name fn \<noteq> nm"
  proof (rule custom_op_rejects)
    show "\<not> (is_function fn \<and> (\<exists>ns. parse_qualname qn = Inr (ns, fn_name fn)
                                   \<and> validate_namespace ns = Inr ()))"
      using s d by (auto dest: parse_qualname_split)
  qed
  then show ?thesis by (auto dest: parse_qualname_split)
qed

theorem custom_op_name_mismatch_witness:
  "split_double_colon ''a:b::add_one'' = Some (''a:b'', ''add_one'')
   \<and> parse_qualname ''a:b::add_one'' = Inr (''a:b'', ''add_one'')
   \<and> fn_name (add_one_fn\<lparr>fn_name := ''add_two''\<rparr>) \<noteq> ''add_one''
   \<and> (\<exists>msg. custom_op sample_host sample_reprs ''a:b::add_one'' None
               (add_one_fn\<lparr>fn_name := ''add_two''\<rparr>) add_one_world
             = (Inl (ValueError msg), add_one_world))"
proof -
  have s: "split_double_colon ''a:b::add_one'' = Some (''a:b'', ''add_one'')"
    by code_simp
  have p: "parse_qualname ''a:b::add_one'' = Inr (''a:b'', ''add_one'')"
    by code_simp
  have d: "fn_name (add_one_fn\<lparr>fn_name := ''add_two''\<rparr>) \<noteq> ''add_one''"
    by simp
  from s p d custom_op_name_mismatch [of "''a:b::add_one''" "''a:b''" "''add_one''"
      "add_one_fn\<lparr>fn_name := ''add_two''\<rparr>" sample_host sample_reprs None add_one_world]
  show ?thesis by blast
qed

text \<open>
  C8, as amended.  A name accepted by \<open>custom_op\<close> has the form \<open>ns::nm\<close>, split at its
  first \<open>::\<close>, where \<open>ns\<close> contains no dot and is not reserved and \<open>nm\<close> contains no
  dot and is the \<open>__name__\<close> of the function, hence not empty when that name is not
  empty.  A name without \<open>::\<close>, and a name \<open>ns::nm\<close> whose namespace contains a dot or
  is reserved, or whose symbol contains a dot, is empty where the name of the function is
  not, or is not the name of the function, is rejected with a \<open>ValueError\<close>, the state
  unchanged.
\<close>

theorem custom_op_name_rules:
  "(fst (custom_op H R qn m fn w) = Inr a \<longrightarrow>
      (\<exists>ns nm. split_double_colon qn = Some (ns, nm) \<and> qn = ns @ ''::'' @ nm
             \<and> CHR ''.'' \<notin> set ns \<and> ns \<notin> RESERVED_NS
             \<and> CHR ''.'' \<notin> set nm \<and> nm = fn_name fn \<and> (fn_name fn \<noteq> [] \<longrightarrow> nm \<noteq> [])))
   \<and> (split_double_colon qn = None \<longrightarrow>
      (\<exists>msg. custom_op H R qn m fn w = (Inl (ValueError msg), w)))
   \<and> ((\<nexists>ns nm. qn = ns @ ''::'' @ nm) \<longrightarrow>
      (\<exists>msg. custom_op H R qn m fn w = (Inl (ValueError msg), w)))
   \<and> (split_double_colon qn = Some (ns', nm')
        \<and> (CHR ''.'' \<in> set ns' \<or> ns' \<in> RESERVED_NS \<or> CHR ''.'' \<in> set nm'
             \<or> (nm' = [] \<and> fn_name fn \<noteq> []) \<or> nm' \<noteq> fn_name fn)
      \<longrightarrow> (\<exists>msg. custom_op H R qn m fn w = (Inl (ValueError msg), w)))"
proof (intro conjI impI)
  assume ok: "fst (custom_op H R qn m fn w) = Inr a"
  obtain r w' where res: "custom_op H R qn m fn w = (r, w')"
    by (cases "custom_op H R qn m fn w")
  with ok custom_op_name_checks [OF res]
  obtain ns where p: "parse_qualname qn = Inr (ns, fn_name fn)"
    and v: "validate_namespace ns = Inr ()"
    by auto
  from parse_qualname_split [OF p]
  have "split_double_colon qn = Some (ns, fn_name fn)" "CHR ''.'' \<notin> set (fn_name fn)"
    by simp_all
  moreover from v have "CHR ''.'' \<notin> set ns" "ns \<notin> RESERVED_NS"
    by (auto simp: validate_namespace_def split: if_splits)
  ultimately show "\<exists>ns nm. split_double_colon qn = Some (ns, nm) \<and> qn = ns @ ''::'' @ nm
             \<and> CHR ''.'' \<notin> set ns \<and> ns \<notin> RESERVED_NS
             \<and> CHR ''.'' \<notin> set nm \<and> nm = fn_name fn \<and> (fn_name fn \<noteq> [] \<longrightarrow> nm \<noteq> [])"
    using split_double_colon_Some by blast
next
  assume none: "split_double_colon qn = None"
  show "\<exists>msg. custom_op H R qn m fn w = (Inl (ValueError msg), w)"
  proof (rule custom_op_rejects)
    show "\<not> (is_function fn \<and> (\<exists>ns. parse_qualname qn = Inr (ns, fn_name fn)
                                   \<and> validate_namespace ns = Inr ()))"
      using none by (auto dest: parse_qualname_split)
  qed
next
  assume none: "\<nexists>ns nm. qn = ns @ ''::'' @ nm"
  show "\<exists>msg. custom_op H R qn m fn w = (Inl (ValueError msg), w)"
  proof (rule custom_op_rejects)
    show "\<not> (is_function fn \<and> (\<exists>ns. parse_qualname qn = Inr (ns, fn_name fn)
                                   \<and> validate_namespace ns = Inr ()))"
    proof
      assume "is_function fn \<and> (\<exists>ns. parse_qualname qn = Inr (ns, fn_name fn)
                                   \<and> validate_namespace ns = Inr ())"
      then obtain ns where "parse_qualname qn = Inr (ns, fn_name fn)" by blast
      from parse_qualname_split [OF this] have "split_double_colon qn = Some (ns, fn_name fn)"
        by simp
      from split_double_colon_Some [OF this] none show False by blast
    qed
  qed
next
  assume bad: "split_double_colon qn = Some (ns', nm')
        \<and> (CHR ''.'' \<in> set ns' \<or> ns' \<in> RESERVED_NS \<or> CHR ''.'' \<in> set nm'
             \<or> (nm' = [] \<and> fn_name fn \<noteq> []) \<or> nm' \<noteq> fn_name fn)"
  show "\<exists>msg. custom_op H R qn m fn w = (Inl (ValueError msg), w)"
  proof (rule custom_op_rejects)
    show "\<not> (is_function fn \<and> (\<exists>ns. parse_qualname qn = Inr (ns, fn_name fn)
                                   \<and> validate_namespace ns = Inr ()))"
      using bad
      by (auto dest!: parse_qualname_split simp: validate_namespace_def split: if_splits)
  qed
qed


theorem custom_op_name_rules_witness:
  "fst (custom_op sample_host sample_reprs ''mylib::add_one'' None add_one_fn empty_world) = Inr 0
   \<and> (\<exists>ns nm. split_double_colon ''mylib::add_one'' = Some (ns, nm)
             \<and> ''mylib::add_one'' = ns @ ''::'' @ nm
             \<and> CHR ''.'' \<notin> set ns \<and> ns \<notin> RESERVED_NS
             \<and> CHR ''.'' \<notin> set nm \<and> nm = fn_name add_one_fn \<and> nm \<noteq> [])
   \<and> split_double_colon ''add_one'' = None
   \<and> (\<nexists>ns nm. ''add_one'' = ns @ ''::'' @ nm)
   \<and> (\<exists>msg. custom_op sample_host sample_reprs ''add_one'' None add_one_fn empty_world
             = (Inl (ValueError msg), empty_world))
   \<and> split_double_colon ''a:b.c::add_one'' = Some (''a:b.c'', ''add_one'')
   \<and> CHR ''.'' \<in> set ''a:b.c''
   \<and> (\<exists>msg. custom_op sample_host sample_reprs ''a:b.c::add_one'' None add_one_fn empty_world
             = (Inl (ValueError msg), empty_world))
   \<and> split_double_colon ''torch::add_one'' = Some (''torch'', ''add_one'')
   \<and> ''torch'' \<in> RESERVED_NS
   \<and> (\<exists>msg. custom_op sample_host sample_reprs ''torch::add_one'' None add_one_fn empty_world
             = (Inl (ValueError msg), empty_world))
   \<and> split_double_colon ''mylib::'' = Some (''mylib'', '''')
   \<and> fn_name add_one_fn \<noteq> []
   \<and> (\<exists>msg. custom_op sample_host sample_reprs ''mylib::'' None add_one_fn empty_world
             = (Inl (ValueError msg), empty_world))"
proof -
  have ok: "fst (custom_op sample_host sample_reprs ''mylib::add_one'' None add_one_fn empty_world)
            = Inr 0"
    by code_simp
  have none: "split_double_colon ''add_one'' = None"
    by code_simp
  have none': "\<nexists>ns nm. ''add_one'' = ns @ ''::'' @ nm"
    using split_double_colon_None [OF none] by blast
  have dot: "split_double_colon ''a:b.c::add_one'' = Some (''a:b.c'', ''add_one'')"
    "CHR ''.'' \<in> set ''a:b.c''"
    by code_simp+
  have reserved: "split_double_colon ''torch::add_one'' = Some (''torch'', ''add_one'')"
    "''torch'' \<in> RESERVED_NS"
    by code_simp+
  have empty: "split_double_colon ''mylib::'' = Some (''mylib'', '''')"
    "fn_name add_one_fn \<noteq> []"
    by code_simp+
  note rules = custom_op_name_rules [of sample_host sample_reprs _ None add_one_fn empty_world]
  from ok rules [of "''mylib::add_one''" 0] empty(2)
  have 1: "\<exists>ns nm. split_double_colon ''mylib::add_one'' = Some (ns, nm)
             \<and> ''mylib::add_one'' = ns @ ''::'' @ nm
             \<and> CHR ''.'' \<notin> set ns \<and> ns \<notin> RESERVED_NS
             \<and> CHR ''.'' \<notin> set nm \<and> nm = fn_name add_one_fn \<and> nm \<noteq> []"
    by blast
  from none rules [of "''add_one''"]
  have 2: "\<exists>msg. custom_op sample_host sample_reprs ''add_one'' None add_one_fn empty_world
             = (Inl (ValueError msg), empty_world)"
    by blast
  from dot rules [of "''a:b.c::add_one''" _ "''a:b.c''" "''add_one''"]
  have 3: "\<exists>msg. custom_op sample_host sample_reprs ''a:b.c::add_one'' None add_one_fn empty_world
             = (Inl (ValueError msg), empty_world)"
    by blast
  from reserved rules [of "''torch::add_one''" _ "''torch''" "''add_one''"]
  have 4: "\<exists>msg. custom_op sample_host sample_reprs ''torch::add_one'' None add_one_fn empty_world
             = (Inl (ValueError msg), empty_world)"
    by blast
  from empty rules [of "''mylib::''" _ "''mylib''" "''''"]
  have 5: "\<exists>msg. custom_op sample_host sample_reprs ''mylib::'' None add_one_fn empty_world
             = (Inl (ValueError msg), empty_world)"
    by blast
  from ok 1 none none' 2 dot 3 reserved 4 empty 5 show ?thesis by blast
qed

text \<open>
  The claim as stated fails: the name \<open>::add_one\<close>, whose namespace is empty, passes
  \<open>parse_qualname\<close> and \<open>validate_namespace\<close>, and the declaration goes through.
\<close>

theorem custom_op_accepts_empty_namespace:
  "parse_qualname ''::add_one'' = Inr ('''', ''add_one'')
   \<and> validate_namespace '''' = Inr ()
   \<and> fst (custom_op sample_host sample_reprs ''::add_one'' None add_one_fn empty_world) = Inr 0"
  by code_simp


subsection \<open>Declaring a name twice\<close>

text \<open>The part of \<open>custom_op\<close> that calls the library, once the checks have passed.\<close>

lemma custom_op_checked:
  assumes "is_function fn" and "parse_qualname qn = Inr (ns, name)"
    and "validate_namespace ns = Inr ()" and "fn_name fn = name"
    and "(case m of None \<Rightarrow> infer_schema R (fn_signature fn) [] | Some t \<Rightarrow> Inr t) = Inr sch_text"
    and "FunctionSchema_parse H (name @ sch_text) = Inr fs"
    and "validate_schema H fs = Inr ()"
    and "(if m \<noteq> None then validate_function_matches_schema fs fn else Inr ()) = Inr ()"
  shows "custom_op H R qn m fn w =
     (case library_Library H ns ''FRAGMENT'' (host_state w) of
         (Inl e, h1) \<Rightarrow> (Inl e, set_host h1 w)
       | (Inr u, h1) \<Rightarrow>
      (let l = \<lparr>lib_ns = ns, lib_kind = ''FRAGMENT''\<rparr> in
      (case library_define H l (name @ sch_text) h1 of
         (Inl e, h2) \<Rightarrow> (Inl e, set_host h2 w)
       | (Inr u, h2) \<Rightarrow>
      (case find_ophandle_or_throw H h2 ns (schema_name fs) of
         Inl e \<Rightarrow> (Inl e, set_host h2 w)
       | Inr oph \<Rightarrow>
      (case CustomOp_init l ns fs name oph True (set_host h2 w) of
         (Inl e, w1) \<Rightarrow> (Inl e, w1)
       | (Inr result, w1) \<Rightarrow>
      (let w2 = update_object result
                  (\<lambda>self. self\<lparr>dunder_name := Some (fn_name fn),
                                dunder_module := Some (fn_module fn),
                                dunder_doc := fn_doc fn\<rparr>) w1
       in
      (case library_impl H l name ''Autograd'' Autograd_kernel_indirection (host_state w2) of
         (Inl e, h3) \<Rightarrow> (Inl e, set_host h3 w2)
       | (Inr u, h3) \<Rightarrow>
      (case dispatch_set_report_error_callback H oph h3 of
         (Inl e, h4) \<Rightarrow> (Inl e, set_host h4 w2)
       | (Inr u, h4) \<Rightarrow> (Inr result, set_host h4 w2)))))))))"
  using assms by (simp add: custom_op_def)

text \<open>Where a check fails, \<open>custom_op\<close> raises its error in every state, and changes nothing.\<close>

lemma custom_op_unchecked:
  assumes "\<not> (is_function fn \<and> (\<exists>ns name sch_text fs.
              parse_qualname qn = Inr (ns, name) \<and> validate_namespace ns = Inr ()
            \<and> fn_name fn = name
            \<and> (case m of None \<Rightarrow> infer_schema R (fn_signature fn) [] | Some t \<Rightarrow> Inr t)
                = Inr sch_text
            \<and> FunctionSchema_parse H (name @ sch_text) = Inr fs
            \<and> validate_schema H fs = Inr ()
            \<and> (if m \<noteq> None then validate_function_matches_schema fs fn else Inr ()) = Inr ()))"
  shows "\<exists>e. \<forall>w. custom_op H R qn m fn w = (Inl e, w)"
proof (cases "is_function fn")
  case False
  then show ?thesis by (simp add: custom_op_def)
next
  case f: True
  show ?thesis
  proof (cases "parse_qualname qn")
    case (Inl e)
    with f show ?thesis by (simp add: custom_op_def)
  next
    case (Inr p)
    obtain ns name where p: "parse_qualname qn = Inr (ns, name)"
      using Inr by (cases p) simp
    show ?thesis
    proof (cases "validate_namespace ns")
      case (Inl e)
      with f p show ?thesis by (simp add: custom_op_def)
    next
      case v: (Inr u)
      show ?thesis
      proof (cases "fn_name fn = name")
        case False
        with f p v show ?thesis by (simp add: custom_op_def)
      next
        case n: True
        show ?thesis
        proof (cases "case m of None \<Rightarrow> infer_schema R (fn_signature fn) [] | Some t \<Rightarrow> Inr t")
          case (Inl e)
          with f p v n show ?thesis by (simp add: custom_op_def)
        next
          case s: (Inr sch_text)
          show ?thesis
          proof (cases "FunctionSchema_parse H (name @ sch_text)")
            case (Inl e)
            with f p v n s show ?thesis by (simp add: custom_op_def)
          next
            case fs: (Inr fs)
            show ?thesis
            proof (cases "validate_schema H fs")
              case (Inl e)
              with f p v n s fs show ?thesis by (simp add: custom_op_def)
            next
              case vs: (Inr u2)
              show ?thesis
              proof (cases "if m \<noteq> None then validate_function_matches_schema fs fn else Inr ()")
                case (Inl e)
                with f p v n s fs vs show ?thesis by (simp add: custom_op_def)
              next
                case (Inr u3)
                with f p v n s fs vs assms have False by auto
                then show ?thesis ..
              qed
            qed
          qed
        qed
      qed
    qed
  qed
qed

lemma custom_op_success_checked:
  assumes "custom_op H R qn m fn w = (Inr a, w')"
  shows "is_function fn \<and> (\<exists>ns name sch_text fs.
              parse_qualname qn = Inr (ns, name) \<and> validate_namespace ns = Inr ()
            \<and> fn_name fn = name
            \<and> (case m of None \<Rightarrow> infer_schema R (fn_signature fn) [] | Some t \<Rightarrow> Inr t)
                = Inr sch_text
            \<and> FunctionSchema_parse H (name @ sch_text) = Inr fs
            \<and> validate_schema H fs = Inr ()
            \<and> (if m \<noteq> None then validate_function_matches_schema fs fn else Inr ()) = Inr ())"
proof (rule ccontr)
  assume "\<not> ?thesis"
  from custom_op_unchecked [OF this] obtain e where "custom_op H R qn m fn w = (Inl e, w)"
    by blast
  with assms show False by simp
qed


lemma rule_define_refuses:
  assumes "follows_duplicate_rule H live" and "FunctionSchema_parse H text = Inr fs"
    and "live h (lib_ns l @ ''::'' @ base_name (schema_name fs))"
  shows "fst (library_define H l text h) = Inl DuplicateDeclaration"
proof -
  from assms(1) have "\<forall>l text fs h. FunctionSchema_parse H text = Inr fs \<and>
                     live h (lib_ns l @ ''::'' @ base_name (schema_name fs)) \<longrightarrow>
                     fst (library_define H l text h) = Inl DuplicateDeclaration"
    unfolding follows_duplicate_rule_def by (rule conjunct1)
  with assms(2,3) show ?thesis by blast
qed

lemma rule_define_live:
  assumes "follows_duplicate_rule H live" and "FunctionSchema_parse H text = Inr fs"
    and "fst (library_define H l text h) = Inr ()"
  shows "live (snd (library_define H l text h)) (lib_ns l @ ''::'' @ base_name (schema_name fs))"
proof -
  from assms(1) have "\<forall>l text fs h. FunctionSchema_parse H text = Inr fs \<and>
                     fst (library_define H l text h) = Inr () \<longrightarrow>
                     live (snd (library_define H l text h))
                       (lib_ns l @ ''::'' @ base_name (schema_name fs))"
    unfolding follows_duplicate_rule_def by (elim conjE)
  with assms(2,3) show ?thesis by blast
qed

lemma rule_keeps_live:
  assumes "follows_duplicate_rule H live" and "live h n"
  shows "live (snd (library_Library H ns k h)) n"
    and "live (snd (library_impl H l name key kn h)) n"
    and "live (snd (dispatch_set_report_error_callback H oph h)) n"
  using assms unfolding follows_duplicate_rule_def by simp_all

lemma rule_Library_outcome:
  assumes "follows_duplicate_rule H live"
  shows "fst (library_Library H ns k h) = fst (library_Library H ns k h')"
  using assms unfolding follows_duplicate_rule_def by simp

lemma custom_op_live_after:
  assumes rule: "follows_duplicate_rule H live"
    and first: "custom_op H R qn m fn w0 = (Inr a, w1)"
  shows "\<exists>n. declared_name H R qn m fn = Some n \<and> live (host_state w1) n"
proof -
  from custom_op_success_checked [OF first]
  obtain ns name sch_text fs where f: "is_function fn"
    and p: "parse_qualname qn = Inr (ns, name)" and v: "validate_namespace ns = Inr ()"
    and n: "fn_name fn = name"
    and s: "(case m of None \<Rightarrow> infer_schema R (fn_signature fn) [] | Some t \<Rightarrow> Inr t)
            = Inr sch_text"
    and fs: "FunctionSchema_parse H (name @ sch_text) = Inr fs"
    and vs: "validate_schema H fs = Inr ()"
    and vf: "(if m \<noteq> None then validate_function_matches_schema fs fn else Inr ()) = Inr ()"
    by blast
  define l where "l = \<lparr>lib_ns = ns, lib_kind = ''FRAGMENT''\<rparr>"
  define h1 where "h1 = snd (library_Library H ns ''FRAGMENT'' (host_state w0))"
  define h2 where "h2 = snd (library_define H l (name @ sch_text) h1)"
  have d: "declared_name H R qn m fn = Some (ns @ ''::'' @ base_name (schema_name fs))"
    using p s fs by (simp add: declared_name_def)
  note c = first [unfolded custom_op_checked [OF f p v n s fs vs vf]]
  from c have def_ok: "fst (library_define H l (name @ sch_text) h1) = Inr ()"
    unfolding l_def h1_def
    by (auto simp: Let_def split: prod.splits sum.splits)
  from rule_define_live [OF rule fs def_ok]
  have live2: "live h2 (lib_ns l @ ''::'' @ base_name (schema_name fs))"
    unfolding h2_def .
  from c have "\<exists>oph h3 r3 r4.
       library_impl H l name ''Autograd'' Autograd_kernel_indirection h2 = (r3, h3)
     \<and> dispatch_set_report_error_callback H oph h3 = (r4, host_state w1)"
    unfolding l_def h1_def h2_def
    by (auto simp: Let_def CustomOp_init_def set_host_def update_object_def collect_def
             split: prod.splits sum.splits; blast)
  then obtain oph h3 r3 r4 where
    "library_impl H l name ''Autograd'' Autograd_kernel_indirection h2 = (r3, h3)"
    and "dispatch_set_report_error_callback H oph h3 = (r4, host_state w1)"
    by blast
  then have
    h3: "h3 = snd (library_impl H l name ''Autograd'' Autograd_kernel_indirection h2)"
    and w1: "host_state w1 = snd (dispatch_set_report_error_callback H oph h3)"
    by simp_all
  from rule_keeps_live(2) [OF rule live2]
  have "live h3 (lib_ns l @ ''::'' @ base_name (schema_name fs))"
    unfolding h3 .
  from rule_keeps_live(3) [OF rule this]
  have "live (host_state w1) (lib_ns l @ ''::'' @ base_name (schema_name fs))"
    unfolding w1 .
  with d show ?thesis by (simp add: l_def)
qed

lemma custom_op_duplicate:
  assumes rule: "follows_duplicate_rule H live"
    and d: "declared_name H R qn m fn = Some n"
    and live: "live (host_state w) n"
  shows "\<exists>e h'. custom_op H R qn m fn w = (Inl e, w\<lparr>host_state := h'\<rparr>)
            \<and> (e = DuplicateDeclaration \<or> (\<forall>w''. fst (custom_op H R qn m fn w'') = Inl e))"
proof (cases "is_function fn \<and> (\<exists>ns name sch_text fs.
              parse_qualname qn = Inr (ns, name) \<and> validate_namespace ns = Inr ()
            \<and> fn_name fn = name
            \<and> (case m of None \<Rightarrow> infer_schema R (fn_signature fn) [] | Some t \<Rightarrow> Inr t)
                = Inr sch_text
            \<and> FunctionSchema_parse H (name @ sch_text) = Inr fs
            \<and> validate_schema H fs = Inr ()
            \<and> (if m \<noteq> None then validate_function_matches_schema fs fn else Inr ()) = Inr ())")
  case False
  from custom_op_unchecked [OF False] obtain e
    where e: "\<And>w. custom_op H R qn m fn w = (Inl e, w)" by blast
  have "custom_op H R qn m fn w = (Inl e, w\<lparr>host_state := host_state w\<rparr>)"
    using e [of w] by simp
  moreover have "\<forall>w''. fst (custom_op H R qn m fn w'') = Inl e"
    using e by simp
  ultimately show ?thesis by blast
next
  case True
  then obtain ns name sch_text fs where f: "is_function fn"
    and p: "parse_qualname qn = Inr (ns, name)" and v: "validate_namespace ns = Inr ()"
    and nm: "fn_name fn = name"
    and s: "(case m of None \<Rightarrow> infer_schema R (fn_signature fn) [] | Some t \<Rightarrow> Inr t)
            = Inr sch_text"
    and fs: "FunctionSchema_parse H (name @ sch_text) = Inr fs"
    and vs: "validate_schema H fs = Inr ()"
    and vf: "(if m \<noteq> None then validate_function_matches_schema fs fn else Inr ()) = Inr ()"
    by blast
  note c = custom_op_checked [OF f p v nm s fs vs vf]
  define l where "l = \<lparr>lib_ns = ns, lib_kind = ''FRAGMENT''\<rparr>"
  have n: "n = lib_ns l @ ''::'' @ base_name (schema_name fs)"
    using d p s fs by (simp add: declared_name_def l_def)
  obtain r1 h1 where L: "library_Library H ns ''FRAGMENT'' (host_state w) = (r1, h1)"
    by (cases "library_Library H ns ''FRAGMENT'' (host_state w)")
  show ?thesis
  proof (cases r1)
    case (Inl e)
    have "fst (custom_op H R qn m fn w'') = Inl e" for w''
    proof -
      have "fst (library_Library H ns ''FRAGMENT'' (host_state w'')) = Inl e"
        using rule_Library_outcome [OF rule, of ns "''FRAGMENT''" "host_state w''" "host_state w"]
          L Inl by simp
      then obtain h where "library_Library H ns ''FRAGMENT'' (host_state w'') = (Inl e, h)"
        by (cases "library_Library H ns ''FRAGMENT'' (host_state w'')") simp
      then show ?thesis by (simp add: c)
    qed
    then have "\<forall>w''. fst (custom_op H R qn m fn w'') = Inl e" ..
    moreover have "custom_op H R qn m fn w = (Inl e, w\<lparr>host_state := h1\<rparr>)"
      using L Inl by (simp add: c set_host_def)
    ultimately show ?thesis by blast
  next
    case (Inr u)
    from rule_keeps_live(1) [OF rule live, of ns "''FRAGMENT''"] L have "live h1 n"
      by simp
    then have "live h1 (lib_ns l @ ''::'' @ base_name (schema_name fs))"
      unfolding n .
    from rule_define_refuses [OF rule fs this]
    have "fst (library_define H l (name @ sch_text) h1) = Inl DuplicateDeclaration" .
    then have "custom_op H R qn m fn w
               = (Inl DuplicateDeclaration,
                  w\<lparr>host_state := snd (library_define H l (name @ sch_text) h1)\<rparr>)"
      using L Inr by (auto simp: c set_host_def l_def Let_def split: prod.splits sum.splits)
    then show ?thesis by blast
  qed
qed

lemma sample_host_follows_duplicate_rule:
  "follows_duplicate_rule sample_host (\<lambda>h n. n \<in> set h)"
  unfolding follows_duplicate_rule_def
  by (auto simp: sample_host_def Let_def split: if_splits)

lemma add_one_declared:
  "custom_op sample_host sample_reprs ''mylib::add_one'' None add_one_fn empty_world
   = (Inr 0, add_one_world)"
proof -
  have "fst (custom_op sample_host sample_reprs ''mylib::add_one'' None add_one_fn empty_world)
        = Inr 0"
    by code_simp
  then show ?thesis by (simp add: add_one_world_def prod_eq_iff)
qed

text \<open>
  C2, as amended.  Let the library follow the duplicate rule: \<open>define\<close> raises
  \<open>DuplicateDeclaration\<close> for an operator that is live.  When a declaration
  \<open>custom_op(qn, m)(fn)\<close> has succeeded, the operator \<open>n\<close> that it defined is live in the
  state it leaves, and in every state in which \<open>n\<close> is still live, the same declaration
  made again fails with \<open>DuplicateDeclaration\<close>; the registry, the objects and the caller's
  references are as they were, only the state of the host may differ.  Every other
  declaration under \<open>qn\<close> whose schema names the operator \<open>n\<close> fails there too, the
  registry unchanged, with \<open>DuplicateDeclaration\<close> or else with the error that it raises
  in every state.
\<close>

theorem custom_op_second_declare_fails:
  assumes rule: "follows_duplicate_rule H live"
    and first: "custom_op H R qn m fn w0 = (Inr a, w1)"
  shows "\<exists>n. declared_name H R qn m fn = Some n \<and> live (host_state w1) n
     \<and> (\<forall>w. live (host_state w) n \<longrightarrow>
           (\<exists>h'. custom_op H R qn m fn w = (Inl DuplicateDeclaration, w\<lparr>host_state := h'\<rparr>)))
     \<and> (\<forall>w m' fn'. live (host_state w) n \<and> declared_name H R qn m' fn' = Some n \<longrightarrow>
           (\<exists>e h'. custom_op H R qn m' fn' w = (Inl e, w\<lparr>host_state := h'\<rparr>)
                  \<and> (e = DuplicateDeclaration
                      \<or> (\<forall>w''. fst (custom_op H R qn m' fn' w'') = Inl e))))"
proof -
  from custom_op_live_after [OF rule first]
  obtain n where d: "declared_name H R qn m fn = Some n" and l1: "live (host_state w1) n"
    by blast
  have same: "\<exists>h'. custom_op H R qn m fn w = (Inl DuplicateDeclaration, w\<lparr>host_state := h'\<rparr>)"
    if l: "live (host_state w) n" for w
  proof -
    from custom_op_duplicate [OF rule d l]
    obtain e h' where r: "custom_op H R qn m fn w = (Inl e, w\<lparr>host_state := h'\<rparr>)"
      and e: "e = DuplicateDeclaration \<or> (\<forall>w''. fst (custom_op H R qn m fn w'') = Inl e)"
      by blast
    from e first have "e = DuplicateDeclaration"
      by (metis fst_conv sum.distinct(1))
    with r show ?thesis by blast
  qed
  have other: "\<exists>e h'. custom_op H R qn m' fn' w = (Inl e, w\<lparr>host_state := h'\<rparr>)
                  \<and> (e = DuplicateDeclaration
                      \<or> (\<forall>w''. fst (custom_op H R qn m' fn' w'') = Inl e))"
    if "live (host_state w) n \<and> declared_name H R qn m' fn' = Some n" for w m' fn'
    using custom_op_duplicate [OF rule _ _, of R qn m' fn' n w] that by blast
  from d l1 same other show ?thesis by blast
qed

theorem custom_op_second_declare_fails_witness:
  "follows_duplicate_rule sample_host (\<lambda>h n. n \<in> set h)
   \<and> custom_op sample_host sample_reprs ''mylib::add_one'' None add_one_fn empty_world
       = (Inr 0, add_one_world)
   \<and> declared_name sample_host sample_reprs ''mylib::add_one'' None add_one_fn
       = Some ''mylib::add_one''
   \<and> ''mylib::add_one'' \<in> set (host_state add_one_world)
   \<and> (\<exists>h'. custom_op sample_host sample_reprs ''mylib::add_one'' None add_one_fn add_one_world
             = (Inl DuplicateDeclaration, add_one_world\<lparr>host_state := h'\<rparr>))
   \<and> declared_name sample_host sample_reprs ''mylib::add_one'' (Some ''(Tensor x) -> Tensor'')
         add_one_plain_fn = Some ''mylib::add_one''
   \<and> (\<exists>e h'. custom_op sample_host sample_reprs ''mylib::add_one'' (Some ''(Tensor x) -> Tensor'')
                  add_one_plain_fn add_one_world
               = (Inl e, add_one_world\<lparr>host_state := h'\<rparr>)
             \<and> (e = DuplicateDeclaration
                 \<or> (\<forall>w''. fst (custom_op sample_host sample_reprs ''mylib::add_one''
                                   (Some ''(Tensor x) -> Tensor'') add_one_plain_fn w'') = Inl e)))"
proof -
  have d: "declared_name sample_host sample_reprs ''mylib::add_one'' None add_one_fn
           = Some ''mylib::add_one''"
    by code_simp
  have d': "declared_name sample_host sample_reprs ''mylib::add_one''
              (Some ''(Tensor x) -> Tensor'') add_one_plain_fn = Some ''mylib::add_one''"
    by code_simp
  have l: "''mylib::add_one'' \<in> set (host_state add_one_world)"
    by code_simp
  from custom_op_second_declare_fails [OF sample_host_follows_duplicate_rule add_one_declared]
  obtain n where n: "declared_name sample_host sample_reprs ''mylib::add_one'' None add_one_fn
                     = Some n"
    and same: "\<forall>w. n \<in> set (host_state w) \<longrightarrow>
           (\<exists>h'. custom_op sample_host sample_reprs ''mylib::add_one'' None add_one_fn w
                  = (Inl DuplicateDeclaration, w\<lparr>host_state := h'\<rparr>))"
    and other: "\<forall>w m' fn'. n \<in> set (host_state w)
              \<and> declared_name sample_host sample_reprs ''mylib::add_one'' m' fn' = Some n \<longrightarrow>
           (\<exists>e h'. custom_op sample_host sample_reprs ''mylib::add_one'' m' fn' w
                    = (Inl e, w\<lparr>host_state := h'\<rparr>)
                  \<and> (e = DuplicateDeclaration
                      \<or> (\<forall>w''. fst (custom_op sample_host sample_reprs ''mylib::add_one''
                                        m' fn' w'') = Inl e)))"
    by blast
  from n d have nn: "n = ''mylib::add_one''" by simp
  from same l have s: "\<exists>h'. custom_op sample_host sample_reprs ''mylib::add_one'' None add_one_fn
                              add_one_world
             = (Inl DuplicateDeclaration, add_one_world\<lparr>host_state := h'\<rparr>)"
    unfolding nn by blast
  from other l d' have o: "\<exists>e h'. custom_op sample_host sample_reprs ''mylib::add_one''
                  (Some ''(Tensor x) -> Tensor'') add_one_plain_fn add_one_world
               = (Inl e, add_one_world\<lparr>host_state := h'\<rparr>)
             \<and> (e = DuplicateDeclaration
                 \<or> (\<forall>w''. fst (custom_op sample_host sample_reprs ''mylib::add_one''
                                   (Some ''(Tensor x) -> Tensor'') add_one_plain_fn w'') = Inl e))"
    unfolding nn by blast
  from sample_host_follows_duplicate_rule add_one_declared d l s d' o show ?thesis by blast
qed

text \<open>
  The claim as stated fails: the registry put, the assignment
  \<^verbatim>\<open>global_registry[self._qualname] = self\<close> in the constructor of \<open>CustomOp\<close>, makes no check
  of its own.  Constructing a second \<open>CustomOp\<close> under a name that is in the registry returns
  normally and replaces the entry.  \<open>custom_op\<close> gets there with a manual schema that
  begins with a name: \<^verbatim>\<open>custom_op('mylib::add_one', '_v2(Tensor x) -> Tensor')\<close> defines the
  operator \<open>mylib::add_one_v2\<close>, which is not live, constructs the \<open>CustomOp\<close> under
  \<open>mylib::add_one\<close>, and fails only afterwards, when it registers the autograd kernel a
  second time: the entry of \<open>mylib::add_one\<close> is then the new object.
\<close>

theorem registry_put_overwrites:
  "map_of (global_registry add_one_world) ''mylib::add_one'' = Some 0
   \<and> fst (CustomOp_init \<lparr>lib_ns = ''mylib'', lib_kind = ''FRAGMENT''\<rparr> ''mylib'' add_one_schema
            ''add_one'' 0 True add_one_world) = Inr 1
   \<and> map_of (global_registry
        (snd (CustomOp_init \<lparr>lib_ns = ''mylib'', lib_kind = ''FRAGMENT''\<rparr> ''mylib'' add_one_schema
                ''add_one'' 0 True add_one_world))) ''mylib::add_one'' = Some 1
   \<and> (case fst (custom_op sample_host sample_reprs ''mylib::add_one''
                  (Some ''_v2(Tensor x) -> Tensor'') add_one_plain_fn add_one_world) of
         Inl (RuntimeError msg) \<Rightarrow> True | _ \<Rightarrow> False)
   \<and> map_of (global_registry
        (snd (custom_op sample_host sample_reprs ''mylib::add_one''
                (Some ''_v2(Tensor x) -> Tensor'') add_one_plain_fn add_one_world)))
        ''mylib::add_one'' = Some 1"
  by code_simp


subsection \<open>Destroying an operator\<close>

lemma map_of_delete_None: "map_of (AList.delete k al) k = None"
  by (simp add: AList.delete_conv')

lemma destroy_result:
  assumes "destroy H a w = (Inr u, w')" and "objects w a = Some self"
  shows "w' = collect (w\<lparr>objects := (objects w)(a \<mapsto> self\<lparr>lib := None\<rparr>),
               host_state := (if opnamespace_hasattr H (host_state w) (cpp_ns self) (opname self)
                              then opnamespace_delattr H (cpp_ns self) (opname self) (host_state w)
                              else host_state w),
               global_registry := AList.delete (qualname self) (global_registry w)\<rparr>)"
  using assms
  by (auto simp: destroy_def deref_def update_object_def set_host_def Let_def
           split: option.splits if_splits)

text \<open>
  C7, as amended.  When \<open>_destroy\<close> returns normally, the qualified name of the
  operator is no longer in \<open>global_registry\<close>, \<open>get_abstract_impl\<close> of that name returns
  \<open>None\<close>, and the attribute of the operator has been deleted from its namespace of
  \<open>torch.ops\<close> if it was there.  If the registry held the last reference to the object
  (the caller holds none, and no other entry of the registry refers to it), the object is
  gone and a lookup of an implementation through a weak proxy fails with
  \<open>ReferenceError\<close>.  If the caller still holds the object, it has only lost \<open>_lib\<close>: a
  lookup through a weak proxy returns what it returned before the call, until the caller
  drops its reference; from then on it fails with \<open>ReferenceError\<close>.
\<close>

theorem destroy_removes_registry_entry:
  assumes "destroy H a w = (Inr u, w')" and "objects w a = Some self"
  shows "map_of (global_registry w') (qualname self) = None
       \<and> get_abstract_impl w' (qualname self) = Inr None
       \<and> host_state w' =
            (if opnamespace_hasattr H (host_state w) (cpp_ns self) (opname self)
             then opnamespace_delattr H (cpp_ns self) (opname self) (host_state w)
             else host_state w)
       \<and> (a \<notin> held w \<and> a \<notin> snd ` set (AList.delete (qualname self) (global_registry w)) \<longrightarrow>
            objects w' a = None
          \<and> proxy_has_impl w' a kind = Inl ReferenceError
          \<and> proxy_get_impl w' a kind = Inl ReferenceError)
       \<and> (a \<in> held w \<longrightarrow>
            objects w' a = Some (self\<lparr>lib := None\<rparr>)
          \<and> proxy_has_impl w' a kind = Inr (has_impl self kind)
          \<and> proxy_get_impl w' a kind = get_impl self kind)
       \<and> (a \<notin> snd ` set (AList.delete (qualname self) (global_registry w)) \<longrightarrow>
            proxy_has_impl (unhold a w') a kind = Inl ReferenceError
          \<and> proxy_get_impl (unhold a w') a kind = Inl ReferenceError)"
  unfolding destroy_result [OF assms]
  by (simp add: get_abstract_impl_def proxy_has_impl_def proxy_get_impl_def deref_def
      has_impl_def get_impl_def collect_def referenced_def unhold_def map_of_delete_None)


theorem destroy_removes_registry_entry_witness:
  "fst (destroy sample_host 0
          (snd (register_impl_at 0 ''cpu'' ''add_one_cpu'' \<lparr>filename = ''ops.py'', lineno = 12\<rparr>
                  add_one_world))) = Inr ()
   \<and> map_of (global_registry
        (snd (destroy sample_host 0
           (snd (register_impl_at 0 ''cpu'' ''add_one_cpu'' \<lparr>filename = ''ops.py'', lineno = 12\<rparr>
                   add_one_world))))) ''mylib::add_one'' = None
   \<and> get_abstract_impl
        (snd (destroy sample_host 0
           (snd (register_impl_at 0 ''cpu'' ''add_one_cpu'' \<lparr>filename = ''ops.py'', lineno = 12\<rparr>
                   add_one_world)))) ''mylib::add_one'' = Inr None
   \<and> proxy_has_impl
        (snd (destroy sample_host 0
           (snd (register_impl_at 0 ''cpu'' ''add_one_cpu'' \<lparr>filename = ''ops.py'', lineno = 12\<rparr>
                   add_one_world)))) 0 ''cpu'' = Inl ReferenceError
   \<and> proxy_get_impl
        (snd (destroy sample_host 0
           (snd (register_impl_at 0 ''cpu'' ''add_one_cpu'' \<lparr>filename = ''ops.py'', lineno = 12\<rparr>
                   add_one_world)))) 0 ''cpu'' = Inl ReferenceError
   \<and> fst (destroy sample_host 0
          (snd (register_impl_at 0 ''cpu'' ''add_one_cpu'' \<lparr>filename = ''ops.py'', lineno = 12\<rparr>
                  (hold 0 add_one_world)))) = Inr ()
   \<and> proxy_has_impl
        (snd (destroy sample_host 0
           (snd (register_impl_at 0 ''cpu'' ''add_one_cpu'' \<lparr>filename = ''ops.py'', lineno = 12\<rparr>
                   (hold 0 add_one_world))))) 0 ''cpu'' = Inr True
   \<and> proxy_has_impl
        (unhold 0 (snd (destroy sample_host 0
           (snd (register_impl_at 0 ''cpu'' ''add_one_cpu'' \<lparr>filename = ''ops.py'', lineno = 12\<rparr>
                   (hold 0 add_one_world)))))) 0 ''cpu'' = Inl ReferenceError"
proof -
  define W where "W = snd (register_impl_at 0 ''cpu'' ''add_one_cpu''
                             \<lparr>filename = ''ops.py'', lineno = 12\<rparr> add_one_world)"
  define V where "V = snd (register_impl_at 0 ''cpu'' ''add_one_cpu''
                             \<lparr>filename = ''ops.py'', lineno = 12\<rparr> (hold 0 add_one_world))"
  have okW: "fst (destroy sample_host 0 W) = Inr ()"
    unfolding W_def by code_simp
  then have dW: "destroy sample_host 0 W = (Inr (), snd (destroy sample_host 0 W))"
    by (simp add: prod_eq_iff)
  have okV: "fst (destroy sample_host 0 V) = Inr ()"
    unfolding V_def by code_simp
  then have dV: "destroy sample_host 0 V = (Inr (), snd (destroy sample_host 0 V))"
    by (simp add: prod_eq_iff)
  have "case objects W 0 of None \<Rightarrow> False
        | Some self \<Rightarrow> qualname self = ''mylib::add_one'' \<and> has_impl self ''cpu''"
    unfolding W_def by code_simp
  then obtain s where s: "objects W 0 = Some s"
    and qs: "qualname s = ''mylib::add_one''"
    by (cases "objects W 0") auto
  have "case objects V 0 of None \<Rightarrow> False
        | Some self \<Rightarrow> qualname self = ''mylib::add_one'' \<and> has_impl self ''cpu''"
    unfolding V_def by code_simp
  then obtain t where t: "objects V 0 = Some t"
    and qt: "qualname t = ''mylib::add_one''" and ct: "has_impl t ''cpu''"
    by (cases "objects V 0") auto
  have freeW: "0 \<notin> held W \<and> 0 \<notin> snd ` set (AList.delete ''mylib::add_one'' (global_registry W))"
    unfolding W_def by code_simp
  have heldV: "0 \<in> held V \<and> 0 \<notin> snd ` set (AList.delete ''mylib::add_one'' (global_registry V))"
    unfolding V_def by code_simp
  from destroy_removes_registry_entry [OF dW s, of "''cpu''"] okW qs freeW
  have 1: "map_of (global_registry (snd (destroy sample_host 0 W))) ''mylib::add_one'' = None
       \<and> get_abstract_impl (snd (destroy sample_host 0 W)) ''mylib::add_one'' = Inr None
       \<and> proxy_has_impl (snd (destroy sample_host 0 W)) 0 ''cpu'' = Inl ReferenceError
       \<and> proxy_get_impl (snd (destroy sample_host 0 W)) 0 ''cpu'' = Inl ReferenceError"
    by simp
  from destroy_removes_registry_entry [OF dV t, of "''cpu''"] okV qt ct heldV
  have 2: "proxy_has_impl (snd (destroy sample_host 0 V)) 0 ''cpu'' = Inr True
       \<and> proxy_has_impl (unhold 0 (snd (destroy sample_host 0 V))) 0 ''cpu'' = Inl ReferenceError"
    by simp
  from okW okV 1 2 show ?thesis unfolding W_def V_def by simp
qed

text \<open>
  The claim as stated fails: the caller binds the operator to a name, as the decorator
  syntax does, registers a \<open>cpu\<close> implementation and calls \<open>_destroy\<close>.  The name is gone
  from the registry, and a lookup of the \<open>cpu\<close> implementation through a weak proxy of
  the operator returns the implementation; it does not fail.
\<close>

theorem lookup_after_destroy_succeeds:
  "fst (destroy sample_host 0
          (snd (register_impl_at 0 ''cpu'' ''add_one_cpu'' \<lparr>filename = ''ops.py'', lineno = 12\<rparr>
                  (hold 0 add_one_world)))) = Inr ()
   \<and> map_of (global_registry
        (snd (destroy sample_host 0
           (snd (register_impl_at 0 ''cpu'' ''add_one_cpu'' \<lparr>filename = ''ops.py'', lineno = 12\<rparr>
                   (hold 0 add_one_world)))))) ''mylib::add_one'' = None
   \<and> proxy_get_impl
        (snd (destroy sample_host 0
           (snd (register_impl_at 0 ''cpu'' ''add_one_cpu'' \<lparr>filename = ''ops.py'', lineno = 12\<rparr>
                   (hold 0 add_one_world))))) 0 ''cpu''
       = Inr (Some \<lparr>func = ''add_one_cpu'', location = ''ops.py:12''\<rparr>)"
  by code_simp

end
